(* ===== verification/Sasl_Prelude.thy ===== *)
theory Sasl_Prelude
  imports Main "HOL-Library.Word"
begin

text \<open>
  Shared vocabulary of the development: the types that name what the TypeScript source
  manipulates, two collections of facts that the component theories feed to the
  simplifier, and the generic lemmas on 16-bit words, lists and sum-typed results that
  more than one component uses.

  \<^item> A JavaScript string is a sequence of 16-bit code units: \<open>js_string\<close> is a list of
    \<open>16 word\<close>. \<open>String.prototype.charCodeAt\<close> reads a unit as a number, which is \<open>unat\<close>.
  \<^item> A JavaScript number that holds a code point is a \<open>nat\<close>: the source only ever
    subtracts under a guard that keeps the difference non-negative, and no value
    reaches \<open>2^53\<close>, so neither truncation nor rounding can be observed.
  \<^item> An exception is the \<open>Inl\<close> side of a sum; \<open>result_bind\<close> propagates it the way an
    uncaught \<open>throw\<close> does.
\<close>

section \<open>Fact collections\<close>

named_theorems sasl_defs
  "definitions of pipeline stages, unfolded when a run is executed symbolically"

named_theorems utf16_bounds
  "numeric bounds on code units and code points"

section \<open>Types of the model\<close>

type_synonym code_unit = "16 word"
type_synonym js_string = "code_unit list"
type_synonym code_point = nat

section \<open>Exceptions as values\<close>

text \<open>
  Every way a call of \<open>saslprep\<close> can throw. The first five are the \<open>throw\<close> statements
  of the source, in source order, named as the specification names them. The last four
  are exceptions that the JavaScript runtime raises inside expressions of the source:
  calling \<open>codePointAt\<close> on \<open>undefined\<close> (a \<open>TypeError\<close>), looking \<open>undefined\<close> up in a
  table, \<open>String.fromCodePoint\<close> on a number above \<open>0x10FFFF\<close> (a \<open>RangeError\<close>), and
  a call with more arguments than the engine allows (a \<open>RangeError\<close> as well).
\<close>

datatype error =
    InvalidInputType
  | ProhibitedCharacter
  | UnassignedCodePoint
  | BidiMixedDirection
  | BidiEdgePlacement
  | UndefinedCodePointAt
  | UndefinedTableLookup
  | InvalidCodePoint code_point
  | ArgumentLimitExceeded

type_synonym 'a result = "error + 'a"

definition result_bind :: "'e + 'a \<Rightarrow> ('a \<Rightarrow> 'e + 'b) \<Rightarrow> 'e + 'b" where
  "result_bind r f = (case r of Inl e \<Rightarrow> Inl e | Inr x \<Rightarrow> f x)"

lemma result_bind_Inl [simp]: "result_bind (Inl e) f = Inl e"
  by (simp add: result_bind_def)

lemma result_bind_Inr [simp]: "result_bind (Inr x) f = f x"
  by (simp add: result_bind_def)

lemma result_bind_eq_Inr_iff:
  "result_bind r f = Inr y \<longleftrightarrow> (\<exists>x. r = Inr x \<and> f x = Inr y)"
  by (cases r) simp_all

lemma result_bind_eq_Inl_iff:
  "result_bind r f = Inl e \<longleftrightarrow> r = Inl e \<or> (\<exists>x. r = Inr x \<and> f x = Inl e)"
  by (cases r) simp_all

section \<open>Code units as numbers\<close>

lemma unat_code_unit_less [simp, utf16_bounds]: "unat (u :: code_unit) < 65536"
  using unsigned_less [of u, where 'a = nat] by simp

lemma unat_code_unit_le [simp, utf16_bounds]: "unat (u :: code_unit) \<le> 65535"
  using unat_code_unit_less [of u] by arith

lemma unat_of_nat_code_unit [simp]:
  "n < 65536 \<Longrightarrow> unat (of_nat n :: code_unit) = n"
  by (simp add: unat_of_nat)

lemma code_unit_of_unat [simp]: "(of_nat (unat u) :: code_unit) = u"
  by simp

lemma code_unit_eq_iff: "u = v \<longleftrightarrow> unat u = unat (v :: code_unit)"
  by (simp add: word_unat_eq_iff)

lemma map_of_nat_unat [simp]: "map (\<lambda>u. of_nat (unat u) :: code_unit) s = s"
  by (induction s) simp_all

section \<open>Arithmetic on ranges\<close>

text \<open>
  A number in a range is the lower end plus an offset. The surrogate arithmetic is
  linear in the offsets, which keeps the large constants away from the decision
  procedures.
\<close>

lemma split_offset: "(lo::nat) \<le> n \<Longrightarrow> n \<le> hi \<Longrightarrow> \<exists>a. n = lo + a \<and> a \<le> hi - lo"
  by (rule exI [of _ "n - lo"]) simp

section \<open>Lists\<close>

lemma list_ex_append_iff: "list_ex P (xs @ ys) \<longleftrightarrow> list_ex P xs \<or> list_ex P ys"
  by (induction xs) simp_all

lemma list_ex_filter_iff: "list_ex P (filter Q xs) \<longleftrightarrow> list_ex (\<lambda>x. Q x \<and> P x) xs"
  by (auto simp: list_ex_iff)

lemma list_ex_map_iff: "list_ex P (map f xs) \<longleftrightarrow> list_ex (\<lambda>x. P (f x)) xs"
  by (auto simp: list_ex_iff)

lemma not_list_ex_iff: "\<not> list_ex P xs \<longleftrightarrow> (\<forall>x \<in> set xs. \<not> P x)"
  by (simp add: list_ex_iff)

lemma filter_map_id:
  "(\<forall>x \<in> set xs. f x = x \<and> P x) \<Longrightarrow> filter P (map f xs) = xs"
  by (induction xs) simp_all

lemma nth_0_eq_hd: "xs \<noteq> [] \<Longrightarrow> xs ! 0 = hd xs"
  by (simp add: hd_conv_nth)

end
