(* ===== verification/Js_String.thy ===== *)
theory Js_String
  imports Sasl_Prelude
begin

text \<open>
  The JavaScript string primitives that \<open>index.ts\<close> calls, and its three one-line
  helpers. \<open>charCodeAt\<close>, \<open>codePointAt\<close> and \<open>String.fromCodePoint\<close> are built into the
  language; they are modelled from ECMA-262 (\<open>String.prototype.charCodeAt\<close>,
  \<open>String.prototype.codePointAt\<close>, \<open>UTF16EncodeCodePoint\<close>, \<open>String.fromCodePoint\<close>).
  \<open>getCodePoint\<close>, \<open>first\<close> and \<open>last\<close> are lines 4 to 6 of the source. The value
  \<open>undefined\<close> is \<open>None\<close>.
\<close>

section \<open>Built-in operations\<close>

text \<open>
  \<open>charCodeAt\<close> returns \<open>NaN\<close> outside the string. The source calls it only under the
  guards \<open>i < size\<close> and \<open>size > i + 1\<close>, so the model reads with \<open>!\<close> and the loop's
  guards keep every read in range (\<open>Code_Points.toCodePoints_body\<close>).
\<close>

definition charCodeAt :: "js_string \<Rightarrow> nat \<Rightarrow> nat" where
  "charCodeAt s i = unat (s ! i)"

definition codePointAt :: "js_string \<Rightarrow> nat \<Rightarrow> code_point option" where
  "codePointAt s p =
     (if length s \<le> p then None
      else
        let fst_unit = unat (s ! p) in
        if fst_unit < 0xD800 \<or> 0xDBFF < fst_unit \<or> p + 1 = length s then Some fst_unit
        else
          let snd_unit = unat (s ! (p + 1)) in
          if snd_unit < 0xDC00 \<or> 0xDFFF < snd_unit then Some fst_unit
          else Some ((fst_unit - 0xD800) * 0x400 + (snd_unit - 0xDC00) + 0x10000))"

definition UTF16EncodeCodePoint :: "code_point \<Rightarrow> js_string" where
  "UTF16EncodeCodePoint cp =
     (if cp \<le> 0xFFFF then [of_nat cp]
      else [of_nat ((cp - 0x10000) div 0x400 + 0xD800),
            of_nat ((cp - 0x10000) mod 0x400 + 0xDC00)])"

fun fromCodePoint :: "code_point list \<Rightarrow> js_string result" where
  "fromCodePoint [] = Inr []"
| "fromCodePoint (cp # cps) =
     (if 0x10FFFF < cp then Inl (InvalidCodePoint cp)
      else result_bind (fromCodePoint cps) (\<lambda>rest. Inr (UTF16EncodeCodePoint cp @ rest)))"

section \<open>The helpers of the source\<close>

text \<open>
  \<open>first(x)\<close> is \<open>x[0]\<close> and \<open>last(x)\<close> is \<open>x[x.length - 1]\<close>: on a string, the one-unit
  string at that index, and \<open>undefined\<close> when the string is empty (index \<open>0\<close> or \<open>-1\<close> is
  then not a property of it). \<open>getCodePoint(c)\<close> is \<open>c.codePointAt(0)\<close>, which throws a
  \<open>TypeError\<close> when \<open>c\<close> is \<open>undefined\<close>.
\<close>

definition first :: "js_string \<Rightarrow> js_string option" where
  "first x = (if x = [] then None else Some [x ! 0])"

definition last_js :: "js_string \<Rightarrow> js_string option" where
  "last_js x = (if x = [] then None else Some [x ! (length x - 1)])"

definition getCodePoint :: "js_string option \<Rightarrow> code_point option result" where
  "getCodePoint character =
     (case character of
        None \<Rightarrow> Inl UndefinedCodePointAt
      | Some c \<Rightarrow> Inr (codePointAt c 0))"

declare first_def [sasl_defs] and last_js_def [sasl_defs] and getCodePoint_def [sasl_defs]

section \<open>Facts about the built-in operations\<close>

lemma codePointAt_single [simp]: "codePointAt [u] 0 = Some (unat u)"
  by (simp add: codePointAt_def)

lemma codePointAt_Nil [simp]: "codePointAt [] p = None"
  by (simp add: codePointAt_def)

lemma codePointAt_in_range: "p < length s \<Longrightarrow> \<exists>c. codePointAt s p = Some c"
  by (simp add: codePointAt_def Let_def)

lemma codePointAt_out_of_range: "length s \<le> p \<Longrightarrow> codePointAt s p = None"
  by (simp add: codePointAt_def)

lemma length_UTF16EncodeCodePoint:
  "length (UTF16EncodeCodePoint cp) = (if cp \<le> 0xFFFF then 1 else 2)"
  by (simp add: UTF16EncodeCodePoint_def)

lemma UTF16EncodeCodePoint_not_Nil [simp]: "UTF16EncodeCodePoint cp \<noteq> []"
  by (simp add: UTF16EncodeCodePoint_def)

lemma UTF16EncodeCodePoint_bmp [simp]:
  "cp \<le> 0xFFFF \<Longrightarrow> UTF16EncodeCodePoint cp = [of_nat cp]"
  by (simp add: UTF16EncodeCodePoint_def)

lemma UTF16EncodeCodePoint_unat [simp]:
  "UTF16EncodeCodePoint (unat (u :: code_unit)) = [u]"
  by (simp add: UTF16EncodeCodePoint_def)

lemma fromCodePoint_Inr_iff:
  "(\<exists>s. fromCodePoint cps = Inr s) \<longleftrightarrow> (\<forall>c \<in> set cps. c \<le> 0x10FFFF)"
  by (induction cps) (auto simp: result_bind_eq_Inr_iff)

lemma fromCodePoint_valid:
  "\<forall>c \<in> set cps. c \<le> 0x10FFFF \<Longrightarrow>
   fromCodePoint cps = Inr (concat (map UTF16EncodeCodePoint cps))"
  by (induction cps) simp_all

lemma fromCodePoint_append:
  "fromCodePoint (xs @ ys) =
   result_bind (fromCodePoint xs) (\<lambda>a. result_bind (fromCodePoint ys) (\<lambda>b. Inr (a @ b)))"
proof (induction xs)
  case Nil
  show ?case by (cases "fromCodePoint ys") simp_all
next
  case (Cons x xs)
  show ?case
    by (cases "fromCodePoint xs"; cases "fromCodePoint ys") (simp_all add: Cons.IH)
qed

lemma fromCodePoint_Inl_first_invalid:
  "fromCodePoint cps = Inl e \<Longrightarrow>
   \<exists>pre c post. cps = pre @ c # post \<and> (\<forall>x \<in> set pre. x \<le> 0x10FFFF) \<and> 0x10FFFF < c
     \<and> e = InvalidCodePoint c"
proof (induction cps)
  case Nil
  then show ?case by simp
next
  case (Cons a cps)
  show ?case
  proof (cases "0x10FFFF < a")
    case True
    with Cons.prems have "e = InvalidCodePoint a" by simp
    with True show ?thesis by (intro exI [of _ "[]"]) auto
  next
    case False
    with Cons.prems have "fromCodePoint cps = Inl e"
      by (auto simp: result_bind_eq_Inl_iff)
    then obtain pre c post where
      "cps = pre @ c # post" "\<forall>x \<in> set pre. x \<le> 0x10FFFF" "0x10FFFF < c" "e = InvalidCodePoint c"
      using Cons.IH by blast
    with False show ?thesis by (intro exI [of _ "a # pre"]) auto
  qed
qed

lemma first_Nil [simp]: "first [] = None"
  by (simp add: first_def)

lemma last_js_Nil [simp]: "last_js [] = None"
  by (simp add: last_js_def)

lemma first_eq_None_iff [simp]: "first x = None \<longleftrightarrow> x = []"
  by (simp add: first_def)

lemma last_js_eq_None_iff [simp]: "last_js x = None \<longleftrightarrow> x = []"
  by (simp add: last_js_def)

lemma first_eq_hd: "x \<noteq> [] \<Longrightarrow> first x = Some [hd x]"
  by (simp add: first_def nth_0_eq_hd)

lemma last_js_eq_last: "x \<noteq> [] \<Longrightarrow> last_js x = Some [last x]"
  by (simp add: last_js_def last_conv_nth)

lemma getCodePoint_first: "x \<noteq> [] \<Longrightarrow> getCodePoint (first x) = Inr (Some (unat (hd x)))"
  by (simp add: getCodePoint_def first_eq_hd)

lemma getCodePoint_last_js: "x \<noteq> [] \<Longrightarrow> getCodePoint (last_js x) = Inr (Some (unat (last x)))"
  by (simp add: getCodePoint_def last_js_eq_last)

lemma getCodePoint_undefined [simp]: "getCodePoint None = Inl UndefinedCodePointAt"
  by (simp add: getCodePoint_def)

section \<open>Properties of the helpers\<close>

text \<open>
  C30. \<open>getCodePoint(first(x))\<close> and \<open>getCodePoint(last(x))\<close> read one code unit: on a
  non-empty string they return the value of its first and of its last unit, also when
  that unit is half of a surrogate pair; on the empty string both throw the \<open>TypeError\<close>
  of calling \<open>codePointAt\<close> on \<open>undefined\<close>.
\<close>

theorem getCodePoint_reads_one_unit:
  "(x \<noteq> [] \<longrightarrow> getCodePoint (first x) = Inr (Some (unat (hd x))) \<and>
                getCodePoint (last_js x) = Inr (Some (unat (last x)))) \<and>
   getCodePoint (first []) = Inl UndefinedCodePointAt \<and>
   getCodePoint (last_js []) = Inl UndefinedCodePointAt"
  by (simp add: getCodePoint_first getCodePoint_last_js)

theorem getCodePoint_reads_one_unit_witness:
  "getCodePoint (first [0xD802, 0xDC00]) = Inr (Some 0xD802) \<and>
   getCodePoint (last_js [0xD802, 0xDC00]) = Inr (Some 0xDC00) \<and>
   codePointAt [0xD802, 0xDC00] 0 = Some 0x10800"
  using getCodePoint_reads_one_unit [of "[0xD802, 0xDC00]"]
  by (simp add: codePointAt_def)

end
