(* ===== verification/Code_Points.thy ===== *)
theory Code_Points
  imports Js_String "HOL-Library.While_Combinator"
begin

text \<open>
  The code-point decoder \<open>toCodePoints\<close> (lines 13 to 34 of \<open>index.ts\<close>): a \<open>for\<close> loop
  over the code units of a string with one unit of look-ahead, which joins a high
  surrogate and the low surrogate after it into one code point and passes every other
  unit through. The loop is modelled as it is written: a state of the index \<open>i\<close> and the
  array \<open>codepoints\<close>, a body for one iteration, and the iteration of the body while
  \<open>i < size\<close>. The reference decoder \<open>decode\<close> is the left-to-right scan of the
  specification (section 4.1), by recursion on the list of units. The theory proves that
  the loop computes the scan, derives the decoder's properties from the scan, and counts
  the iterations of the loop.
\<close>

section \<open>The loop of \<open>toCodePoints\<close>\<close>

record decoder_state =
  pos :: nat
  codepoints :: "code_point list"

text \<open>
  One iteration, lines 18 to 30, together with the loop's increment \<open>i += 1\<close>: the
  \<open>continue\<close> branch advances by two.
\<close>

definition toCodePoints_body :: "js_string \<Rightarrow> decoder_state \<Rightarrow> decoder_state" where
  "toCodePoints_body input st =
     (let i = pos st; before = charCodeAt input i in
      if 0xD800 \<le> before \<and> before \<le> 0xDBFF \<and> i + 1 < length input then
        let next = charCodeAt input (i + 1) in
        if 0xDC00 \<le> next \<and> next \<le> 0xDFFF then
          \<lparr>pos = i + 1 + 1,
           codepoints = codepoints st @ [(before - 0xD800) * 0x400 + next - 0xDC00 + 0x10000]\<rparr>
        else \<lparr>pos = i + 1, codepoints = codepoints st @ [before]\<rparr>
      else \<lparr>pos = i + 1, codepoints = codepoints st @ [before]\<rparr>)"

text \<open>
  The \<open>for\<close> loop, line 17: the body runs while \<open>i < size\<close>. Every iteration moves the
  index forward, so \<open>size - i\<close> decreases.
\<close>

function toCodePoints_loop :: "js_string \<Rightarrow> decoder_state \<Rightarrow> decoder_state" where
  "toCodePoints_loop input st =
     (if pos st < length input then toCodePoints_loop input (toCodePoints_body input st)
      else st)"
  by pat_completeness auto
termination
  by (relation "measure (\<lambda>(input, st). length input - pos st)")
    (auto simp: toCodePoints_body_def Let_def)

declare toCodePoints_loop.simps [simp del]

definition toCodePoints :: "js_string \<Rightarrow> code_point list" where
  "toCodePoints input = codepoints (toCodePoints_loop input \<lparr>pos = 0, codepoints = []\<rparr>)"

section \<open>The reference decoder\<close>

definition high_surrogate :: "nat \<Rightarrow> bool" where
  "high_surrogate n \<longleftrightarrow> 0xD800 \<le> n \<and> n \<le> 0xDBFF"

definition low_surrogate :: "nat \<Rightarrow> bool" where
  "low_surrogate n \<longleftrightarrow> 0xDC00 \<le> n \<and> n \<le> 0xDFFF"

definition pair_value :: "nat \<Rightarrow> nat \<Rightarrow> code_point" where
  "pair_value h l = (h - 0xD800) * 0x400 + (l - 0xDC00) + 0x10000"

definition scalar_value :: "code_point \<Rightarrow> bool" where
  "scalar_value c \<longleftrightarrow> c \<le> 0x10FFFF \<and> \<not> high_surrogate c \<and> \<not> low_surrogate c"

fun decode :: "js_string \<Rightarrow> code_point list" where
  "decode [] = []"
| "decode [u] = [unat u]"
| "decode (u # v # rest) =
     (if high_surrogate (unat u) \<and> low_surrogate (unat v)
      then pair_value (unat u) (unat v) # decode rest
      else unat u # decode (v # rest))"

text \<open>A string is well formed when every surrogate in it is half of a pair.\<close>

fun well_formed :: "js_string \<Rightarrow> bool" where
  "well_formed [] = True"
| "well_formed [u] = (\<not> high_surrogate (unat u) \<and> \<not> low_surrogate (unat u))"
| "well_formed (u # v # rest) =
     (if high_surrogate (unat u) \<and> low_surrogate (unat v) then well_formed rest
      else \<not> high_surrogate (unat u) \<and> \<not> low_surrogate (unat u) \<and> well_formed (v # rest))"

text \<open>
  What decoding does to a list of code points that was encoded unit by unit: a high
  surrogate value followed by a low surrogate value becomes one code point.
\<close>

fun fuse :: "code_point list \<Rightarrow> code_point list" where
  "fuse [] = []"
| "fuse [c] = [c]"
| "fuse (c # d # rest) =
     (if high_surrogate c \<and> low_surrogate d then pair_value c d # fuse rest
      else c # fuse (d # rest))"

text \<open>
  Two strings straddle a pair when the first ends in a high surrogate and the second
  begins with a low one: joined, the two units are read as one code point.
\<close>

definition straddles :: "js_string \<Rightarrow> js_string \<Rightarrow> bool" where
  "straddles s t \<longleftrightarrow>
     s \<noteq> [] \<and> t \<noteq> [] \<and> high_surrogate (unat (last s)) \<and> low_surrogate (unat (hd t))"

definition decoder_inv :: "js_string \<Rightarrow> decoder_state \<Rightarrow> bool" where
  "decoder_inv input st \<longleftrightarrow>
     pos st \<le> length input \<and>
     codepoints st @ decode (drop (pos st) input) = decode input"

lemmas surrogate_defs = high_surrogate_def low_surrogate_def pair_value_def scalar_value_def

section \<open>Surrogate arithmetic\<close>

lemma pos_toCodePoints_body_greater [simp]: "pos st < pos (toCodePoints_body input st)"
  by (simp add: toCodePoints_body_def Let_def)

lemma high_surrogateE:
  assumes "high_surrogate h"
  obtains a where "h = 0xD800 + a" and "a \<le> 0x3FF"
  using assms split_offset [of "0xD800" h "0xDBFF"] by (auto simp: high_surrogate_def)

lemma low_surrogateE:
  assumes "low_surrogate l"
  obtains b where "l = 0xDC00 + b" and "b \<le> 0x3FF"
  using assms split_offset [of "0xDC00" l "0xDFFF"] by (auto simp: low_surrogate_def)

lemma high_not_low: "high_surrogate n \<Longrightarrow> \<not> low_surrogate n"
  by (simp add: high_surrogate_def low_surrogate_def)

lemma unat_code_unit_valid [simp, utf16_bounds]: "\<not> 0x10FFFF < unat (u :: code_unit)"
  using unat_code_unit_less [of u] by arith

lemma unat_code_unit_le_max [simp, utf16_bounds]: "unat (u :: code_unit) \<le> 0x10FFFF"
  using unat_code_unit_less [of u] by arith

lemma pair_value_offsets [simp]:
  "pair_value (0xD800 + a) (0xDC00 + b) = 0x10000 + (a * 0x400 + b)"
  by (simp add: pair_value_def)

lemma pair_value_bounds [utf16_bounds]:
  assumes "high_surrogate h" "low_surrogate l"
  shows "0x10000 \<le> pair_value h l" and "pair_value h l \<le> 0x10FFFF"
proof -
  from assms obtain a b where "h = 0xD800 + a" "a \<le> 0x3FF" "l = 0xDC00 + b" "b \<le> 0x3FF"
    by (elim high_surrogateE low_surrogateE)
  then show "0x10000 \<le> pair_value h l" and "pair_value h l \<le> 0x10FFFF"
    by simp_all
qed

lemma pair_value_scalar:
  "high_surrogate h \<Longrightarrow> low_surrogate l \<Longrightarrow> scalar_value (pair_value h l)"
  using pair_value_bounds [of h l]
  by (simp add: scalar_value_def high_surrogate_def low_surrogate_def)

lemma pair_value_div_mod:
  assumes "high_surrogate h" "low_surrogate l"
  shows "(pair_value h l - 0x10000) div 0x400 + 0xD800 = h"
    and "(pair_value h l - 0x10000) mod 0x400 + 0xDC00 = l"
proof -
  from assms obtain a b where "h = 0xD800 + a" "a \<le> 0x3FF" "l = 0xDC00 + b" "b \<le> 0x3FF"
    by (elim high_surrogateE low_surrogateE)
  then show "(pair_value h l - 0x10000) div 0x400 + 0xD800 = h"
    and "(pair_value h l - 0x10000) mod 0x400 + 0xDC00 = l"
    by simp_all
qed

lemma UTF16EncodeCodePoint_pair_value:
  assumes "high_surrogate (unat u)" "low_surrogate (unat v)"
  shows "UTF16EncodeCodePoint (pair_value (unat u) (unat v)) = [u, v]"
proof -
  from pair_value_bounds(1) [OF assms] have "\<not> pair_value (unat u) (unat v) \<le> 0xFFFF"
    by simp
  then show ?thesis
    by (simp add: UTF16EncodeCodePoint_def pair_value_div_mod [OF assms])
qed

lemma supplementary_units:
  assumes "0xFFFF < c" "c \<le> 0x10FFFF"
  shows "high_surrogate ((c - 0x10000) div 0x400 + 0xD800)"
    and "low_surrogate ((c - 0x10000) mod 0x400 + 0xDC00)"
    and "pair_value ((c - 0x10000) div 0x400 + 0xD800) ((c - 0x10000) mod 0x400 + 0xDC00) = c"
proof -
  from assms obtain d where c: "c = 0x10000 + d" and d: "d \<le> 0xFFFFF"
    using split_offset [of "0x10000" c "0x10FFFF"] by auto
  from d have q: "d div 0x400 \<le> 0x3FF"
    using div_le_mono [of d "0xFFFFF" "0x400"] by simp
  have r: "d mod 0x400 \<le> 0x3FF"
    using mod_less_divisor [of "0x400" d] by simp
  from q show "high_surrogate ((c - 0x10000) div 0x400 + 0xD800)"
    by (simp add: c high_surrogate_def)
  from r show "low_surrogate ((c - 0x10000) mod 0x400 + 0xDC00)"
    by (simp add: c low_surrogate_def)
  show "pair_value ((c - 0x10000) div 0x400 + 0xD800) ((c - 0x10000) mod 0x400 + 0xDC00) = c"
    by (simp add: c pair_value_def)
qed

section \<open>The loop computes the scan\<close>

lemma toCodePoints_body_step:
  assumes "pos st < length input"
  shows "codepoints (toCodePoints_body input st)
           @ decode (drop (pos (toCodePoints_body input st)) input)
         = codepoints st @ decode (drop (pos st) input)"
proof -
  let ?i = "pos st"
  from assms have d1: "drop ?i input = input ! ?i # drop (Suc ?i) input"
    by (simp add: Cons_nth_drop_Suc)
  show ?thesis
  proof (cases "Suc ?i < length input")
    case True
    then have d2: "drop (Suc ?i) input = input ! Suc ?i # drop (Suc (Suc ?i)) input"
      by (simp add: Cons_nth_drop_Suc)
    show ?thesis
      by (simp add: toCodePoints_body_def Let_def charCodeAt_def d1 d2 surrogate_defs True)
  next
    case False
    with assms have "drop (Suc ?i) input = []" by simp
    with False show ?thesis
      by (simp add: toCodePoints_body_def Let_def charCodeAt_def d1)
  qed
qed

lemma pos_toCodePoints_body_le:
  "pos st < length input \<Longrightarrow> pos (toCodePoints_body input st) \<le> length input"
  by (simp add: toCodePoints_body_def Let_def)

lemma pos_toCodePoints_body_cases:
  "pos (toCodePoints_body input st) = pos st + 1 \<or>
   pos (toCodePoints_body input st) = pos st + 2"
  by (simp add: toCodePoints_body_def Let_def)

lemma length_codepoints_body [simp]:
  "length (codepoints (toCodePoints_body input st)) = Suc (length (codepoints st))"
  by (simp add: toCodePoints_body_def Let_def)

lemma toCodePoints_loop_decode:
  "pos st \<le> length input \<Longrightarrow>
   toCodePoints_loop input st =
     \<lparr>pos = length input, codepoints = codepoints st @ decode (drop (pos st) input)\<rparr>"
proof (induction input st rule: toCodePoints_loop.induct)
  case (1 input st)
  show ?case
  proof (cases "pos st < length input")
    case True
    from toCodePoints_body_step [OF True] pos_toCodePoints_body_le [OF True] "1.IH" [OF True]
    show ?thesis
      by (simp add: toCodePoints_loop.simps [of input st] True)
  next
    case False
    with "1.prems" show ?thesis
      by (simp add: toCodePoints_loop.simps [of input st])
  qed
qed

lemma toCodePoints_eq_decode: "toCodePoints input = decode input"
  by (simp add: toCodePoints_def toCodePoints_loop_decode)

lemma toCodePoints_loop_while:
  "while_option (\<lambda>st. pos st < length input) (toCodePoints_body input) st
   = Some (toCodePoints_loop input st)"
proof (induction input st rule: toCodePoints_loop.induct)
  case (1 input st)
  show ?case
  proof (cases "pos st < length input")
    case True
    with "1.IH" show ?thesis
      by (subst while_option_unfold) (simp add: toCodePoints_loop.simps [of input st])
  next
    case False
    then show ?thesis
      by (subst while_option_unfold) (simp add: toCodePoints_loop.simps [of input st])
  qed
qed

section \<open>Properties of the scan\<close>

lemma decode_Cons_not_high:
  "\<not> high_surrogate (unat u) \<Longrightarrow> decode (u # rest) = unat u # decode rest"
  by (cases rest) simp_all

lemma decode_Cons_not_low:
  "rest \<noteq> [] \<Longrightarrow> \<not> low_surrogate (unat (hd rest)) \<Longrightarrow>
   decode (u # rest) = unat u # decode rest"
  by (cases rest) simp_all

lemma decode_eq_Nil_iff [simp]: "decode s = [] \<longleftrightarrow> s = []"
  by (cases s rule: decode.cases) simp_all

lemma length_decode_le: "length (decode s) \<le> length s"
  by (induction s rule: decode.induct) auto

lemma length_le_twice_decode: "length s \<le> 2 * length (decode s)"
  by (induction s rule: decode.induct) auto

lemma unat_code_unit_not_supplementary: "\<not> 0x10000 \<le> unat (u :: code_unit)"
  by (simp add: not_le)

lemma length_decode_units:
  "length s = length (decode s) + length (filter (\<lambda>c. 0x10000 \<le> c) (decode s))"
  by (induction s rule: decode.induct)
    (simp_all add: pair_value_bounds unat_code_unit_not_supplementary)

lemma decode_bmp_unit: "c \<in> set (decode s) \<Longrightarrow> c < 0x10000 \<Longrightarrow> c \<in> unat ` set s"
  by (induction s rule: decode.induct)
    (auto simp: not_le [symmetric] pair_value_bounds split: if_splits)

lemma unit_in_decode:
  "u \<in> set s \<Longrightarrow> \<not> high_surrogate (unat u) \<Longrightarrow> \<not> low_surrogate (unat u) \<Longrightarrow>
   unat u \<in> set (decode s)"
  by (induction s rule: decode.induct) auto

lemma decode_bound: "c \<in> set (decode s) \<Longrightarrow> c \<le> 0x10FFFF"
proof (induction s rule: decode.induct)
  case 1
  then show ?case by simp
next
  case (2 u)
  then show ?case by simp
next
  case (3 u v rest)
  then show ?case
    using pair_value_bounds(2) [of "unat u" "unat v"] by (auto split: if_splits)
qed

lemma fromCodePoint_decode: "fromCodePoint (decode s) = Inr s"
proof (induction s rule: decode.induct)
  case 1
  show ?case by simp
next
  case (2 u)
  show ?case by simp
next
  case (3 u v rest)
  show ?case
  proof (cases "high_surrogate (unat u) \<and> low_surrogate (unat v)")
    case True
    with pair_value_bounds(2) [of "unat u" "unat v"]
    have "\<not> 0x10FFFF < pair_value (unat u) (unat v)" by simp
    with True "3.IH"(1) show ?thesis
      by (simp add: UTF16EncodeCodePoint_pair_value)
  next
    case False
    with "3.IH"(2) show ?thesis by auto
  qed
qed

lemma concat_encode_decode: "concat (map UTF16EncodeCodePoint (decode s)) = s"
  using fromCodePoint_decode [of s] by (simp add: fromCodePoint_valid decode_bound)

lemma decode_inject: "decode s = decode t \<longleftrightarrow> s = t"
proof
  assume "decode s = decode t"
  then have "fromCodePoint (decode s) = fromCodePoint (decode t)" by simp
  then show "s = t" by (simp add: fromCodePoint_decode)
qed simp

lemma decode_no_high: "\<forall>u \<in> set s. \<not> high_surrogate (unat u) \<Longrightarrow> decode s = map unat s"
  by (induction s) (simp_all add: decode_Cons_not_high)

lemma scalar_value_iff:
  "scalar_value c \<longleftrightarrow> c \<le> 0x10FFFF \<and> \<not> (0xD800 \<le> c \<and> c \<le> 0xDFFF)"
  by (auto simp: surrogate_defs)

lemma scalar_value_le: "scalar_value c \<Longrightarrow> c \<le> 0x10FFFF"
  by (simp add: scalar_value_def)


lemma unat_hd_UTF16EncodeCodePoint:
  assumes "c \<le> 0x10FFFF"
  shows "unat (hd (UTF16EncodeCodePoint c)) =
           (if c \<le> 0xFFFF then c else (c - 0x10000) div 0x400 + 0xD800)"
proof (cases "c \<le> 0xFFFF")
  case True
  then show ?thesis by simp
next
  case False
  with assms have c: "0xFFFF < c" "c \<le> 0x10FFFF" by simp_all
  define H :: code_unit where "H = of_nat ((c - 0x10000) div 0x400 + 0xD800)"
  from supplementary_units(1) [OF c] have "(c - 0x10000) div 0x400 + 0xD800 < 65536"
    by (simp add: high_surrogate_def)
  then have "unat H = (c - 0x10000) div 0x400 + 0xD800"
    unfolding H_def by (rule unat_of_nat_code_unit)
  moreover from False have "hd (UTF16EncodeCodePoint c) = H"
    by (simp add: UTF16EncodeCodePoint_def H_def)
  ultimately show ?thesis using False by simp
qed

lemma low_hd_UTF16EncodeCodePoint:
  assumes "c \<le> 0x10FFFF"
  shows "low_surrogate (unat (hd (UTF16EncodeCodePoint c))) \<longleftrightarrow> low_surrogate c"
proof (cases "c \<le> 0xFFFF")
  case True
  then show ?thesis by simp
next
  case False
  with assms have c: "0xFFFF < c" "c \<le> 0x10FFFF" by simp_all
  from supplementary_units(1) [OF c]
  have "\<not> low_surrogate ((c - 0x10000) div 0x400 + 0xD800)"
    by (rule high_not_low)
  moreover from c have "\<not> low_surrogate c"
    by (simp add: low_surrogate_def)
  ultimately show ?thesis
    using False by (simp add: unat_hd_UTF16EncodeCodePoint [OF assms])
qed

lemma decode_encode_Cons:
  assumes "c \<le> 0x10FFFF" and "\<not> (high_surrogate c \<and> r \<noteq> [] \<and> low_surrogate (unat (hd r)))"
  shows "decode (UTF16EncodeCodePoint c @ r) = c # decode r"
proof (cases "c \<le> 0xFFFF")
  case True
  then have u: "unat (of_nat c :: code_unit) = c" by simp
  show ?thesis
  proof (cases "high_surrogate c")
    case True
    with assms(2) have "r = [] \<or> (r \<noteq> [] \<and> \<not> low_surrogate (unat (hd r)))" by blast
    with \<open>c \<le> 0xFFFF\<close> u show ?thesis by (auto simp: decode_Cons_not_low)
  next
    case False
    with \<open>c \<le> 0xFFFF\<close> u show ?thesis by (simp add: decode_Cons_not_high)
  qed
next
  case False
  with assms(1) have c: "0xFFFF < c" "c \<le> 0x10FFFF" by simp_all
  note su = supplementary_units [OF c]
  define H :: code_unit where "H = of_nat ((c - 0x10000) div 0x400 + 0xD800)"
  define L :: code_unit where "L = of_nat ((c - 0x10000) mod 0x400 + 0xDC00)"
  from su(1,2) have lt: "(c - 0x10000) div 0x400 + 0xD800 < 65536"
    "(c - 0x10000) mod 0x400 + 0xDC00 < 65536"
    by (simp_all add: high_surrogate_def low_surrogate_def)
  have "unat H = (c - 0x10000) div 0x400 + 0xD800" "unat L = (c - 0x10000) mod 0x400 + 0xDC00"
    unfolding H_def L_def by (rule unat_of_nat_code_unit, rule lt)+
  moreover from False have "UTF16EncodeCodePoint c = [H, L]"
    by (simp add: UTF16EncodeCodePoint_def H_def L_def)
  ultimately show ?thesis using su by simp
qed

lemma decode_concat_encode_fuse:
  "\<forall>c \<in> set cps. c \<le> 0x10FFFF \<Longrightarrow> decode (concat (map UTF16EncodeCodePoint cps)) = fuse cps"
proof (induction cps rule: fuse.induct)
  case 1
  show ?case by simp
next
  case (2 c)
  then show ?case using decode_encode_Cons [of c "[]"] by simp
next
  case (3 c d rest)
  let ?R = "concat (map UTF16EncodeCodePoint rest)"
  from "3.prems" have le: "c \<le> 0x10FFFF" "d \<le> 0x10FFFF" "\<forall>x \<in> set rest. x \<le> 0x10FFFF"
    by simp_all
  show ?case
  proof (cases "high_surrogate c \<and> low_surrogate d")
    case True
    then have small: "c \<le> 0xFFFF" "d \<le> 0xFFFF"
      by (simp_all add: high_surrogate_def low_surrogate_def)
    then have "unat (of_nat c :: code_unit) = c" "unat (of_nat d :: code_unit) = d" by simp_all
    with True small "3.IH"(1) le(3) show ?thesis by simp
  next
    case False
    have "\<not> (high_surrogate c \<and> UTF16EncodeCodePoint d @ ?R \<noteq> [] \<and>
             low_surrogate (unat (hd (UTF16EncodeCodePoint d @ ?R))))"
      using False by (simp add: low_hd_UTF16EncodeCodePoint [OF le(2)])
    with le(1) have "decode (UTF16EncodeCodePoint c @ UTF16EncodeCodePoint d @ ?R)
        = c # decode (UTF16EncodeCodePoint d @ ?R)"
      by (rule decode_encode_Cons)
    moreover from "3.IH"(2) [OF False] le(2,3)
    have "decode (UTF16EncodeCodePoint d @ ?R) = fuse (d # rest)" by simp
    moreover from False have "fuse (c # d # rest) = c # fuse (d # rest)" by auto
    ultimately show ?thesis by simp
  qed
qed

lemma fuse_scalar: "\<forall>c \<in> set cps. scalar_value c \<Longrightarrow> fuse cps = cps"
  by (induction cps rule: fuse.induct) (simp_all add: scalar_value_def)

lemma set_fuse_subset: "set (fuse cps) \<subseteq> set cps \<union> {c. 0x10000 \<le> c}"
proof (induction cps rule: fuse.induct)
  case (3 c d rest)
  then show ?case using pair_value_bounds(1) [of c d] by auto
qed simp_all

lemma decode_concat_encode:
  "\<forall>c \<in> set cps. scalar_value c \<Longrightarrow> decode (concat (map UTF16EncodeCodePoint cps)) = cps"
  by (simp add: decode_concat_encode_fuse scalar_value_le fuse_scalar)

lemma well_formed_iff_scalar: "well_formed s \<longleftrightarrow> (\<forall>c \<in> set (decode s). scalar_value c)"
proof (induction s rule: decode.induct)
  case 1
  show ?case by simp
next
  case (2 u)
  show ?case by (simp add: scalar_value_def)
next
  case (3 u v rest)
  show ?case
  proof (cases "high_surrogate (unat u) \<and> low_surrogate (unat v)")
    case True
    with "3.IH"(1) show ?thesis by (simp add: pair_value_scalar)
  next
    case False
    with "3.IH"(2) show ?thesis by (auto simp: scalar_value_def)
  qed
qed

lemma hd_decode:
  "hd (decode (u # rest)) =
     (if high_surrogate (unat u) \<and> rest \<noteq> [] \<and> low_surrogate (unat (hd rest))
      then pair_value (unat u) (unat (hd rest)) else unat u)"
  by (cases rest) simp_all

lemma codePointAt_0_decode: "s \<noteq> [] \<Longrightarrow> codePointAt s 0 = Some (hd (decode s))"
proof (cases s rule: decode.cases)
  case (3 u v rest)
  then show ?thesis
    by (auto simp: codePointAt_def surrogate_defs Let_def)
qed (simp_all add: codePointAt_def Let_def)

lemma last_decode:
  "s \<noteq> [] \<Longrightarrow>
   last (decode s) =
     (if 2 \<le> length s \<and> high_surrogate (unat (last (butlast s)))
          \<and> low_surrogate (unat (last s))
      then pair_value (unat (last (butlast s))) (unat (last s)) else unat (last s))"
proof (induction s rule: decode.induct)
  case 1
  then show ?case by simp
next
  case (2 u)
  show ?case by simp
next
  case (3 u v rest)
  show ?case
  proof (cases rest rule: decode.cases)
    case 1
    then show ?thesis by simp
  next
    case (2 w)
    with "3.IH" show ?thesis by (auto simp: high_not_low)
  next
    case (3 w x more)
    with "3.IH" show ?thesis by auto
  qed
qed

lemma decode_append:
  "\<not> (s \<noteq> [] \<and> t \<noteq> [] \<and> high_surrogate (unat (last s)) \<and> low_surrogate (unat (hd t)))
   \<Longrightarrow> decode (s @ t) = decode s @ decode t"
proof (induction s rule: decode.induct)
  case 1
  show ?case by simp
next
  case (2 u)
  then show ?case by (cases t) auto
next
  case (3 u v rest)
  then show ?case by (cases "rest = []") auto
qed

lemma decode_snoc_high:
  "high_surrogate (unat h) \<Longrightarrow> decode (s @ [h]) = decode s @ [unat h]"
  using decode_append [of s "[h]"] by (simp add: high_not_low)

lemma decode_append_straddles:
  assumes "straddles s t"
  shows "decode (s @ t) =
     butlast (decode s) @ pair_value (unat (last s)) (unat (hd t)) # tl (decode t)"
proof -
  from assms obtain s' h l t' where s: "s = s' @ [h]" and t: "t = l # t'"
    and h: "high_surrogate (unat h)" and l: "low_surrogate (unat l)"
    by (cases s rule: rev_cases; cases t) (auto simp: straddles_def)
  from h have "decode (s' @ h # l # t') = decode s' @ decode (h # l # t')"
    by (intro decode_append) (simp add: high_not_low)
  moreover from l have "\<not> high_surrogate (unat l)"
    using high_not_low by blast
  ultimately show ?thesis
    using h l by (simp add: s t decode_snoc_high decode_Cons_not_high)
qed

lemma decode_append_unit:
  assumes "\<not> high_surrogate (unat u)" and "\<not> low_surrogate (unat u)"
  shows "decode (a @ u # b) = decode a @ unat u # decode b"
proof -
  from assms(2) have "decode (a @ u # b) = decode a @ decode (u # b)"
    by (intro decode_append) simp
  with assms(1) show ?thesis by (simp add: decode_Cons_not_high)
qed

section \<open>Counting the iterations\<close>

text \<open>
  Each iteration appends one code point, the head of what the scan reads from the
  current position, and moves the position to where the scan reads the tail from.
\<close>

lemma toCodePoints_body_hd_tl:
  assumes "pos st < length input"
  shows "codepoints (toCodePoints_body input st) =
           codepoints st @ [hd (decode (drop (pos st) input))]"
    and "decode (drop (pos (toCodePoints_body input st)) input) =
           tl (decode (drop (pos st) input))"
proof -
  from assms have "decode (drop (pos st) input) \<noteq> []" by simp
  then obtain c rest where d: "decode (drop (pos st) input) = c # rest"
    by (cases "decode (drop (pos st) input)") auto
  from toCodePoints_body_step [OF assms] d
  have "codepoints (toCodePoints_body input st)
          @ decode (drop (pos (toCodePoints_body input st)) input)
        = (codepoints st @ [c]) @ rest"
    by simp
  then have "codepoints (toCodePoints_body input st) = codepoints st @ [c] \<and>
      decode (drop (pos (toCodePoints_body input st)) input) = rest"
    by (intro append_eq_append_conv [THEN iffD1]) simp_all
  with d show "codepoints (toCodePoints_body input st) =
      codepoints st @ [hd (decode (drop (pos st) input))]"
    and "decode (drop (pos (toCodePoints_body input st)) input) =
      tl (decode (drop (pos st) input))"
    by simp_all
qed

lemma toCodePoints_body_funpow:
  assumes "pos st \<le> length input" and "k \<le> length (decode (drop (pos st) input))"
  shows "pos ((toCodePoints_body input ^^ k) st) \<le> length input \<and>
         codepoints ((toCodePoints_body input ^^ k) st) =
           codepoints st @ take k (decode (drop (pos st) input)) \<and>
         decode (drop (pos ((toCodePoints_body input ^^ k) st)) input) =
           drop k (decode (drop (pos st) input))"
  using assms(2)
proof (induction k)
  case 0
  with assms(1) show ?case by simp
next
  case (Suc k)
  let ?st = "(toCodePoints_body input ^^ k) st"
  let ?D = "decode (drop (pos st) input)"
  from Suc have IH: "pos ?st \<le> length input"
    "codepoints ?st = codepoints st @ take k ?D"
    "decode (drop (pos ?st) input) = drop k ?D"
    by simp_all
  from Suc.prems have k: "k < length ?D" by simp
  with IH(3) have "decode (drop (pos ?st) input) \<noteq> []" by simp
  with IH(1) have less: "pos ?st < length input" by (cases "pos ?st = length input") auto
  from k have "take (Suc k) ?D = take k ?D @ [hd (drop k ?D)]"
    by (simp add: take_hd_drop)
  with toCodePoints_body_hd_tl [OF less] pos_toCodePoints_body_le [OF less] IH
  show ?case by (simp add: drop_Suc tl_drop)
qed

lemma pos_funpow_less_iff:
  assumes "k \<le> length (decode input)"
  shows "pos ((toCodePoints_body input ^^ k) \<lparr>pos = 0, codepoints = []\<rparr>) < length input
         \<longleftrightarrow> k < length (decode input)"
proof -
  let ?st = "(toCodePoints_body input ^^ k) \<lparr>pos = 0, codepoints = []\<rparr>"
  from toCodePoints_body_funpow [of "\<lparr>pos = 0, codepoints = []\<rparr>" input k] assms
  have le: "pos ?st \<le> length input" and d: "decode (drop (pos ?st) input) = drop k (decode input)"
    by simp_all
  have "pos ?st < length input \<longleftrightarrow> decode (drop (pos ?st) input) \<noteq> []"
    using le by auto
  with d assms show ?thesis by auto
qed

section \<open>Evaluating the decoder\<close>

lemma toCodePoints_Nil [simp]: "toCodePoints [] = []"
  by (simp add: toCodePoints_eq_decode)

lemma toCodePoints_eq_Nil_iff [simp]: "toCodePoints s = [] \<longleftrightarrow> s = []"
  by (simp add: toCodePoints_eq_decode)

lemmas toCodePoints_eval = toCodePoints_eq_decode surrogate_defs

section \<open>Properties of \<open>toCodePoints\<close>\<close>

text \<open>
  C2. The index loop of \<open>toCodePoints\<close> computes the left-to-right scan of the
  specification: the empty string decodes to nothing, a single unit to its value, and a
  string of two or more units starts with the joined value of a high surrogate and the
  low surrogate after it, consuming both, or else with the value of its first unit alone.
\<close>

theorem toCodePoints_scan:
  "toCodePoints [] = [] \<and>
   toCodePoints [u] = [unat u] \<and>
   toCodePoints (u # v # rest) =
     (if high_surrogate (unat u) \<and> low_surrogate (unat v)
      then pair_value (unat u) (unat v) # toCodePoints rest
      else unat u # toCodePoints (v # rest))"
  by (simp add: toCodePoints_eq_decode)

theorem toCodePoints_scan_witness:
  "toCodePoints [0x61, 0xD83D, 0xDE00, 0xD800] = [0x61, 0x1F600, 0xD800]"
  by (simp add: toCodePoints_scan surrogate_defs)

text \<open>
  C3. Round trip: encoding the code points that \<open>toCodePoints\<close> produced, with
  \<open>String.fromCodePoint\<close>, never throws and gives back the string, unpaired surrogates
  included.
\<close>

theorem fromCodePoint_toCodePoints: "fromCodePoint (toCodePoints s) = Inr s"
  by (simp add: toCodePoints_eq_decode fromCodePoint_decode)

theorem fromCodePoint_toCodePoints_witness:
  "fromCodePoint (toCodePoints [0xDE00, 0xD83D, 0xDE00, 0x61]) = Inr [0xDE00, 0xD83D, 0xDE00, 0x61]"
  by (rule fromCodePoint_toCodePoints)

text \<open>
  C14. Loop invariant of \<open>toCodePoints\<close>: at the head of every iteration the index is
  within the string and the code points pushed so far, followed by the scan of the units
  from the index on, are the scan of the whole string. It holds initially, the loop body
  keeps it while \<open>i < size\<close>, and at exit it gives the result.
\<close>

theorem toCodePoints_body_preserves_inv:
  "decoder_inv input \<lparr>pos = 0, codepoints = []\<rparr> \<and>
   (decoder_inv input st \<and> pos st < length input \<longrightarrow>
      decoder_inv input (toCodePoints_body input st)) \<and>
   (decoder_inv input st \<and> \<not> pos st < length input \<longrightarrow> codepoints st = decode input)"
  by (auto simp: decoder_inv_def toCodePoints_body_step pos_toCodePoints_body_le)

theorem toCodePoints_body_preserves_inv_witness:
  "decoder_inv [0xD83D, 0xDE00, 0x61] \<lparr>pos = 0, codepoints = []\<rparr> \<and>
   pos \<lparr>pos = 0, codepoints = []\<rparr> < length [0xD83D, 0xDE00, 0x61 :: code_unit] \<and>
   decoder_inv [0xD83D, 0xDE00, 0x61]
     (toCodePoints_body [0xD83D, 0xDE00, 0x61] \<lparr>pos = 0, codepoints = []\<rparr>) \<and>
   toCodePoints_body [0xD83D, 0xDE00, 0x61] \<lparr>pos = 0, codepoints = []\<rparr>
     = \<lparr>pos = 2, codepoints = [0x1F600]\<rparr>"
  using toCodePoints_body_preserves_inv
    [of "[0xD83D, 0xDE00, 0x61]" "\<lparr>pos = 0, codepoints = []\<rparr>"]
  by (simp add: toCodePoints_body_def charCodeAt_def)

text \<open>
  C15. Every number that \<open>toCodePoints\<close> returns is at most \<open>0x10FFFF\<close>, so
  \<open>String.fromCodePoint\<close> accepts it, and one below \<open>0x10000\<close> is the value of a code
  unit of the string. In the other direction, the value of every unit of the string
  that is not a surrogate is among the code points: the decoder invents nothing in the
  Basic Multilingual Plane and loses nothing but halves of pairs.
\<close>

theorem toCodePoints_code_point_range:
  "(\<forall>c \<in> set (toCodePoints s). c \<le> 0x10FFFF \<and> (c < 0x10000 \<longrightarrow> c \<in> unat ` set s)) \<and>
   (\<forall>u \<in> set s. \<not> high_surrogate (unat u) \<and> \<not> low_surrogate (unat u) \<longrightarrow>
      unat u \<in> set (toCodePoints s))"
  by (simp add: toCodePoints_eq_decode decode_bound decode_bmp_unit unit_in_decode)

theorem toCodePoints_code_point_range_witness:
  "0x10FFFF \<in> set (toCodePoints [0xDBFF, 0xDFFF, 0x61]) \<and> (0x10FFFF :: nat) \<le> 0x10FFFF \<and>
   0x61 \<in> set (toCodePoints [0xDBFF, 0xDFFF, 0x61]) \<and>
   0x61 \<in> unat ` set [0xDBFF, 0xDFFF, 0x61 :: code_unit]"
  using toCodePoints_code_point_range [of "[0xDBFF, 0xDFFF, 0x61]"]
  by (simp add: toCodePoints_eval)

text \<open>
  C16. \<open>toCodePoints\<close> returns at most one code point per code unit and at least one per
  two code units. Exactly: the string has one unit for every code point of the result
  and one more for every code point from \<open>0x10000\<close> on, so the result is as long as the
  string exactly when it has no such code point.
\<close>

theorem length_toCodePoints_bounds:
  "length (toCodePoints s) \<le> length s \<and> length s \<le> 2 * length (toCodePoints s) \<and>
   length s = length (toCodePoints s)
            + length (filter (\<lambda>c. 0x10000 \<le> c) (toCodePoints s)) \<and>
   (length (toCodePoints s) = length s \<longleftrightarrow>
      list_all (\<lambda>c. c < 0x10000) (toCodePoints s))"
proof -
  have "filter (\<lambda>c. 0x10000 \<le> c) (decode s) = [] \<longleftrightarrow> list_all (\<lambda>c. c < 0x10000) (decode s)"
    by (auto simp: filter_empty_conv list_all_iff)
  with length_decode_units [of s] show ?thesis
    by (auto simp: toCodePoints_eq_decode length_decode_le length_le_twice_decode)
qed

text \<open>
  C17. Round trip in the other direction: a list of Unicode scalar values (at most
  \<open>0x10FFFF\<close>, no surrogate) is encoded by \<open>String.fromCodePoint\<close> without error, and
  \<open>toCodePoints\<close> decodes the string back to the list.
\<close>

theorem toCodePoints_fromCodePoint:
  "\<forall>c \<in> set cps. scalar_value c \<Longrightarrow>
   \<exists>s. fromCodePoint cps = Inr s \<and> toCodePoints s = cps"
  by (simp add: fromCodePoint_valid scalar_value_le toCodePoints_eq_decode decode_concat_encode)

theorem toCodePoints_fromCodePoint_witness:
  "scalar_value 0x61 \<and> scalar_value 0x1F600 \<and>
   (\<exists>s. fromCodePoint [0x61, 0x1F600] = Inr s \<and> toCodePoints s = [0x61, 0x1F600])"
  using toCodePoints_fromCodePoint [of "[0x61, 0x1F600]"]
  by (simp add: surrogate_defs)

text \<open>
  C18. \<open>toCodePoints\<close> is injective: two strings with the same code points are the same
  string.
\<close>

theorem toCodePoints_inject: "toCodePoints s = toCodePoints t \<longleftrightarrow> s = t"
  by (simp add: toCodePoints_eq_decode decode_inject)

text \<open>
  C19. The loop of \<open>toCodePoints\<close> terminates: run as a \<open>while\<close> loop from the initial
  state it reaches a final state, whose index is the length of the string and whose
  array is the result of \<open>toCodePoints\<close>.
\<close>

theorem toCodePoints_loop_terminates:
  "\<exists>st'. while_option (\<lambda>st. pos st < length input) (toCodePoints_body input)
            \<lparr>pos = 0, codepoints = []\<rparr> = Some st'
         \<and> pos st' = length input \<and> codepoints st' = toCodePoints input"
  by (simp add: toCodePoints_loop_while toCodePoints_loop_decode toCodePoints_eq_decode)

text \<open>
  C20. The code points of a string are all Unicode scalar values exactly when every
  surrogate unit of the string is half of a pair.
\<close>

theorem toCodePoints_well_formed_scalar:
  "well_formed s \<longleftrightarrow> (\<forall>c \<in> set (toCodePoints s). scalar_value c)"
  by (simp add: toCodePoints_eq_decode well_formed_iff_scalar)

theorem toCodePoints_well_formed_scalar_witness:
  "well_formed [0xD83D, 0xDE00] \<and> list_all scalar_value (toCodePoints [0xD83D, 0xDE00])
   \<and> \<not> well_formed [0xDE00, 0xD83D]"
  using toCodePoints_well_formed_scalar [of "[0xD83D, 0xDE00]"]
  by (simp add: surrogate_defs list_all_iff)

text \<open>
  On a string without high surrogates, in particular on ASCII, \<open>toCodePoints\<close> is
  \<open>charCodeAt\<close> at every index.
\<close>

theorem toCodePoints_bmp:
  "\<forall>u \<in> set s. \<not> high_surrogate (unat u) \<Longrightarrow> toCodePoints s = map unat s"
  by (simp add: toCodePoints_eq_decode decode_no_high)

theorem toCodePoints_bmp_witness:
  "list_all (\<lambda>u. \<not> high_surrogate (unat u)) [0x75, 0x73, 0x65, 0x72 :: code_unit] \<and>
   toCodePoints [0x75, 0x73, 0x65, 0x72] = [0x75, 0x73, 0x65, 0x72]"
  using toCodePoints_bmp [of "[0x75, 0x73, 0x65, 0x72]"]
  by (simp add: surrogate_defs)

text \<open>
  The built-in \<open>codePointAt(0)\<close> of a non-empty string is the first code point
  that \<open>toCodePoints\<close> returns for it: applied to the whole string, and not to its first
  unit, it reads a surrogate pair as one code point.
\<close>

theorem codePointAt_0_eq_hd_toCodePoints:
  "s \<noteq> [] \<Longrightarrow> codePointAt s 0 = Some (hd (toCodePoints s))"
  by (simp add: toCodePoints_eq_decode codePointAt_0_decode)

theorem codePointAt_0_eq_hd_toCodePoints_witness:
  "codePointAt [0xD802, 0xDC00, 0x61] 0 = Some 0x10800 \<and>
   hd (toCodePoints [0xD802, 0xDC00, 0x61]) = 0x10800"
  using codePointAt_0_eq_hd_toCodePoints [of "[0xD802, 0xDC00, 0x61]"]
  by (simp add: toCodePoints_eval)

text \<open>
  C33. Decoding what \<open>String.fromCodePoint\<close> encoded, for any list of numbers up to
  \<open>0x10FFFF\<close>: the result is the list with every high surrogate value that is directly
  followed by a low surrogate value joined with it into one code point, and every code
  point of the result is an element of the list or lies above the Basic Multilingual
  Plane.
\<close>

theorem toCodePoints_fromCodePoint_fuse:
  "\<forall>c \<in> set cps. c \<le> 0x10FFFF \<Longrightarrow>
   (\<exists>s. fromCodePoint cps = Inr s \<and> toCodePoints s = fuse cps) \<and>
   set (fuse cps) \<subseteq> set cps \<union> {c. 0x10000 \<le> c}"
  by (simp add: fromCodePoint_valid toCodePoints_eq_decode decode_concat_encode_fuse
      set_fuse_subset)

theorem toCodePoints_fromCodePoint_fuse_witness:
  "(\<exists>s. fromCodePoint [0x61, 0xD83D, 0xDE00, 0xDE00] = Inr s \<and>
        toCodePoints s = [0x61, 0x1F600, 0xDE00]) \<and>
   fuse [0x61, 0xD83D, 0xDE00, 0xDE00] = [0x61, 0x1F600, 0xDE00]"
  using toCodePoints_fromCodePoint_fuse [of "[0x61, 0xD83D, 0xDE00, 0xDE00]"]
  by (simp add: surrogate_defs)

text \<open>
  C36. Progress of the loop. After \<open>k\<close> iterations of the body from \<open>i = 0\<close> the array
  holds the first \<open>k\<close> code points of the result, and the loop condition \<open>i < size\<close>
  still holds exactly when \<open>k\<close> is less than the number of code points: the loop leaves
  after as many iterations as the result has code points, which is at most \<open>size\<close>,
  with the complete result.
\<close>

theorem toCodePoints_iterations:
  assumes "k \<le> length (toCodePoints input)"
  shows "codepoints ((toCodePoints_body input ^^ k) \<lparr>pos = 0, codepoints = []\<rparr>) =
           take k (toCodePoints input) \<and>
         (pos ((toCodePoints_body input ^^ k) \<lparr>pos = 0, codepoints = []\<rparr>) < length input
            \<longleftrightarrow> k < length (toCodePoints input))"
  using assms toCodePoints_body_funpow [of "\<lparr>pos = 0, codepoints = []\<rparr>" input k]
    pos_funpow_less_iff [of k input]
  by (simp add: toCodePoints_eq_decode)

theorem toCodePoints_iterations_witness:
  "codepoints ((toCodePoints_body [0xD83D, 0xDE00, 0x41] ^^ 2) \<lparr>pos = 0, codepoints = []\<rparr>) =
     [0x1F600, 0x41] \<and>
   \<not> pos ((toCodePoints_body [0xD83D, 0xDE00, 0x41] ^^ 2) \<lparr>pos = 0, codepoints = []\<rparr>) < 3"
  using toCodePoints_iterations [of 2 "[0xD83D, 0xDE00, 0x41]"]
  by (simp add: toCodePoints_eval)

text \<open>
  C32. Decoding a concatenation. The code points of \<open>s @ t\<close> are those of \<open>s\<close> followed by
  those of \<open>t\<close>, unless \<open>s\<close> ends in a high surrogate and \<open>t\<close> begins with a low one: then
  the last code point of \<open>s\<close> and the first of \<open>t\<close> are replaced by the one code point of
  the pair.
\<close>

theorem toCodePoints_append:
  "toCodePoints (s @ t) =
     (if straddles s t
      then butlast (toCodePoints s) @ pair_value (unat (last s)) (unat (hd t)) # tl (toCodePoints t)
      else toCodePoints s @ toCodePoints t)"
  by (simp add: toCodePoints_eq_decode decode_append_straddles)
    (simp add: straddles_def decode_append)

end
