(* ===== verification/Sasl_Tables.thy ===== *)
theory Sasl_Tables
  imports Sasl_Prelude
begin

text \<open>
  The values that \<open>saslprep\<close> receives besides the string: the six classification
  tables, the options object, and the input itself as a JavaScript value that may fail
  the \<open>typeof\<close> test. The tables are built by \<open>createMemoryCodePoints\<close> in
  \<open>./memory-code-points\<close>, which is not part of the sources; \<open>saslprep\<close> uses nothing of
  a table but \<open>get(codePoint)\<close>, so a table is its membership predicate. After the
  parameters come the predicates in which theorems speak about tables: what the two
  mapping tables do to one code point, and two properties that the tables of RFC 3454
  have and that theorems name as hypotheses when they need them. The fixture
  \<open>rfc_excerpt\<close> has both.
\<close>

section \<open>The parameters of \<open>saslprep\<close>\<close>

record code_point_tables =
  unassigned_code_points :: "code_point \<Rightarrow> bool"
  commonly_mapped_to_nothing :: "code_point \<Rightarrow> bool"
  non_ASCII_space_characters :: "code_point \<Rightarrow> bool"
  prohibited_characters :: "code_point \<Rightarrow> bool"
  bidirectional_r_al :: "code_point \<Rightarrow> bool"
  bidirectional_l :: "code_point \<Rightarrow> bool"

text \<open>
  \<open>opts: { allowUnassigned?: boolean } = {}\<close>: the field may be absent (\<open>None\<close>), and
  the default object has it absent.
\<close>

record options =
  allowUnassigned :: "bool option"

definition default_opts :: options where
  "default_opts = \<lparr>allowUnassigned = None\<rparr>"

text \<open>
  The parameter \<open>input\<close> is typed \<open>string\<close>, and tested again at run time; \<open>NotString\<close>
  stands for every value whose \<open>typeof\<close> is not \<open>'string'\<close>.
\<close>

datatype js_value = Str js_string | NotString

text \<open>
  \<open>table.get(c!)\<close> where \<open>c\<close> is \<open>number | undefined\<close>. What a table answers for
  \<open>undefined\<close> is not defined by the sources; the model makes it an outcome of its own,
  and \<open>Sasl_Prep\<close> proves that no run reaches it.
\<close>

definition table_get :: "(code_point \<Rightarrow> bool) \<Rightarrow> code_point option \<Rightarrow> bool result" where
  "table_get table c = (case c of None \<Rightarrow> Inl UndefinedTableLookup | Some n \<Rightarrow> Inr (table n))"

section \<open>The mapping of one code point, and two properties of tables\<close>

text \<open>
  A code point is fixed by the mapping step of \<open>saslprep\<close> when the step neither drops
  nor replaces it.
\<close>

definition fixed_by_mapping :: "code_point_tables \<Rightarrow> code_point \<Rightarrow> bool" where
  "fixed_by_mapping t c \<longleftrightarrow>
     \<not> commonly_mapped_to_nothing t c \<and> (non_ASCII_space_characters t c \<longrightarrow> c = 0x20)"

text \<open>
  A code point is dropped by the mapping step when it is in the mapped-to-nothing table
  after the replacement of spaces: the source maps first and filters second.
\<close>

definition dropped_by_mapping :: "code_point_tables \<Rightarrow> code_point \<Rightarrow> bool" where
  "dropped_by_mapping t c \<longleftrightarrow>
     commonly_mapped_to_nothing t (if non_ASCII_space_characters t c then 0x20 else c)"

text \<open>
  Two properties that the tables of RFC 3454 have and that the source does not ask for:
  table C.5 makes every surrogate code point prohibited, and no table of the mapping
  holds a code point outside the Basic Multilingual Plane.
\<close>

definition surrogates_prohibited :: "code_point_tables \<Rightarrow> bool" where
  "surrogates_prohibited t \<longleftrightarrow>
     (\<forall>c. 0xD800 \<le> c \<and> c \<le> 0xDFFF \<longrightarrow> prohibited_characters t c)"

definition supplementary_fixed :: "code_point_tables \<Rightarrow> bool" where
  "supplementary_fixed t \<longleftrightarrow> (\<forall>c. 0x10000 \<le> c \<longrightarrow> fixed_by_mapping t c)"

section \<open>Fixture: an excerpt of the RFC 3454 tables\<close>

text \<open>
  Concrete tables at which the theorems of the development are instantiated.
  \<open>rfc_excerpt\<close> holds table B.1 and table C.1.2 of RFC 3454 in full and a few ranges of
  the others (C.2.1, C.5 and C.1.2 as prohibited; the first entries of A.1; the Hebrew
  and Arabic letters of D.1; the ASCII letters and U+00AA of D.2).
\<close>

definition in_ranges :: "(nat \<times> nat) list \<Rightarrow> code_point \<Rightarrow> bool" where
  "in_ranges rs c = list_ex (\<lambda>(lo, hi). lo \<le> c \<and> c \<le> hi) rs"

definition rfc_excerpt :: code_point_tables where
  "rfc_excerpt =
     \<lparr>unassigned_code_points = in_ranges [(0x0221, 0x0221), (0x0234, 0x024F)],
      commonly_mapped_to_nothing =
        in_ranges [(0x00AD, 0x00AD), (0x034F, 0x034F), (0x1806, 0x1806), (0x180B, 0x180D),
                   (0x200B, 0x200D), (0x2060, 0x2060), (0xFE00, 0xFE0F), (0xFEFF, 0xFEFF)],
      non_ASCII_space_characters =
        in_ranges [(0x00A0, 0x00A0), (0x1680, 0x1680), (0x2000, 0x200B), (0x202F, 0x202F),
                   (0x205F, 0x205F), (0x3000, 0x3000)],
      prohibited_characters =
        in_ranges [(0x0000, 0x001F), (0x007F, 0x007F), (0x00A0, 0x00A0), (0x1680, 0x1680),
                   (0x2000, 0x200B), (0x202F, 0x202F), (0x205F, 0x205F), (0x3000, 0x3000),
                   (0xD800, 0xDFFF)],
      bidirectional_r_al = in_ranges [(0x05D0, 0x05EA), (0x0621, 0x063A), (0x0641, 0x064A)],
      bidirectional_l = in_ranges [(0x0041, 0x005A), (0x0061, 0x007A), (0x00AA, 0x00AA)]\<rparr>"

section \<open>Facts\<close>

lemma table_get_Some [simp]: "table_get table (Some n) = Inr (table n)"
  by (simp add: table_get_def)

lemma table_get_None [simp]: "table_get table None = Inl UndefinedTableLookup"
  by (simp add: table_get_def)

lemmas table_fixture_defs = rfc_excerpt_def in_ranges_def default_opts_def

lemma surrogates_prohibited_rfc_excerpt: "surrogates_prohibited rfc_excerpt"
  by (auto simp: surrogates_prohibited_def table_fixture_defs)

lemma supplementary_fixed_rfc_excerpt: "supplementary_fixed rfc_excerpt"
  by (auto simp: supplementary_fixed_def fixed_by_mapping_def table_fixture_defs)

end
