(* ===== verification/Sasl_Normalizer.thy ===== *)
theory Sasl_Normalizer
  imports Code_Points Sasl_Tables
begin

text \<open>
  The normalisation primitive \<open>String.prototype.normalize('NFKC')\<close>, which \<open>saslprep\<close>
  calls on line 83. The algorithm and its data are part of the JavaScript runtime and
  are not modelled: the normaliser is a parameter of the pipeline, a function on
  strings. What the theorems need of it is stated here as predicates on that function,
  the contract of the component: it is idempotent, which the specification states in
  section 8; it maps only the empty string to the empty string; and it does not turn a
  string of code points that the mapping leaves alone into one with a code point that
  the mapping would change. A theorem that depends on the normaliser names the
  predicate it needs as a hypothesis. \<open>nfkc_excerpt\<close> is a small function that satisfies
  the contract, at which such theorems are instantiated.
\<close>

section \<open>The interface and its contract\<close>

type_synonym normalizer = "js_string \<Rightarrow> js_string"

text \<open>
  Normalising twice is normalising once; a string of code points that the mapping step
  of \<open>saslprep\<close> leaves alone is normalised to such a string; only the empty string is
  normalised to the empty string.
\<close>

definition nfkc_idempotent :: "normalizer \<Rightarrow> bool" where
  "nfkc_idempotent nfkc \<longleftrightarrow> (\<forall>s. nfkc (nfkc s) = nfkc s)"

definition nfkc_keeps_fixed :: "code_point_tables \<Rightarrow> normalizer \<Rightarrow> bool" where
  "nfkc_keeps_fixed t nfkc \<longleftrightarrow>
     (\<forall>s. list_all (fixed_by_mapping t) (toCodePoints s) \<longrightarrow>
          list_all (fixed_by_mapping t) (toCodePoints (nfkc s)))"

definition nfkc_nonempty :: "normalizer \<Rightarrow> bool" where
  "nfkc_nonempty nfkc \<longleftrightarrow> (\<forall>s. nfkc s = [] \<longleftrightarrow> s = [])"

section \<open>Fixture: a toy normaliser\<close>

text \<open>
  \<open>nfkc_excerpt\<close> rewrites the two compatibility characters of the examples of RFC 4013
  (U+00AA to \<open>a\<close>, U+2168 to \<open>IX\<close>) and leaves every other unit alone.
\<close>

definition nfkc_excerpt :: normalizer where
  "nfkc_excerpt s =
     concat (map (\<lambda>u. if u = 0x00AA then [0x0061]
                       else if u = 0x2168 then [0x0049, 0x0058] else [u]) s)"

section \<open>The fixture satisfies the contract\<close>

lemmas fixture_defs = table_fixture_defs nfkc_excerpt_def

lemma nfkc_excerpt_idem: "nfkc_excerpt (nfkc_excerpt s) = nfkc_excerpt s"
  by (induction s) (simp_all add: nfkc_excerpt_def)

lemma nfkc_excerpt_Nil [simp]: "nfkc_excerpt [] = []"
  by (simp add: nfkc_excerpt_def)

lemma nfkc_excerpt_eq_Nil_iff [simp]: "nfkc_excerpt s = [] \<longleftrightarrow> s = []"
  by (cases s) (simp_all add: nfkc_excerpt_def)

lemma nfkc_excerpt_Cons:
  "nfkc_excerpt (u # s) =
     (if u = 0x00AA then [0x0061] else if u = 0x2168 then [0x0049, 0x0058] else [u])
     @ nfkc_excerpt s"
  by (simp add: nfkc_excerpt_def)

lemma low_hd_nfkc_excerpt:
  "low_surrogate (unat (hd (nfkc_excerpt (v # s)))) \<longleftrightarrow> low_surrogate (unat v)"
  by (auto simp: nfkc_excerpt_Cons low_surrogate_def)

lemma decode_nfkc_excerpt_Cons:
  assumes "\<not> (high_surrogate (unat u) \<and> s \<noteq> [] \<and> low_surrogate (unat (hd s)))"
  shows "decode (nfkc_excerpt (u # s)) =
     (if u = 0x00AA then [0x61] else if u = 0x2168 then [0x49, 0x58] else [unat u])
     @ decode (nfkc_excerpt s)"
proof (cases "u = 0x00AA \<or> u = 0x2168")
  case True
  then show ?thesis
    by (auto simp: nfkc_excerpt_Cons decode_Cons_not_high high_surrogate_def)
next
  case False
  show ?thesis
  proof (cases "high_surrogate (unat u)")
    case high: True
    show ?thesis
    proof (cases s)
      case Nil
      with False show ?thesis by (simp add: nfkc_excerpt_Cons)
    next
      case (Cons v s')
      with assms high have "\<not> low_surrogate (unat (hd (nfkc_excerpt s)))"
        by (simp add: low_hd_nfkc_excerpt)
      moreover from Cons have "nfkc_excerpt s \<noteq> []" by simp
      ultimately show ?thesis
        using False by (simp add: nfkc_excerpt_Cons decode_Cons_not_low)
    qed
  next
    case False
    with \<open>\<not> (u = 0x00AA \<or> u = 0x2168)\<close> show ?thesis
      by (simp add: nfkc_excerpt_Cons decode_Cons_not_high)
  qed
qed

lemma set_decode_nfkc_excerpt:
  "set (decode (nfkc_excerpt s)) \<subseteq> set (decode s) \<union> {0x61, 0x49, 0x58}"
proof (induction s rule: decode.induct)
  case 1
  show ?case by simp
next
  case (2 u)
  show ?case using decode_nfkc_excerpt_Cons [of u "[]"] by auto
next
  case (3 u v rest)
  show ?case
  proof (cases "high_surrogate (unat u) \<and> low_surrogate (unat v)")
    case True
    then have "u \<noteq> 0x00AA" "u \<noteq> 0x2168" "v \<noteq> 0x00AA" "v \<noteq> 0x2168"
      by (auto simp: high_surrogate_def low_surrogate_def)
    with True "3.IH"(1) show ?thesis
      by (auto simp: nfkc_excerpt_Cons)
  next
    case False
    then have "decode (nfkc_excerpt (u # v # rest)) =
        (if u = 0x00AA then [0x61] else if u = 0x2168 then [0x49, 0x58] else [unat u])
        @ decode (nfkc_excerpt (v # rest))"
      by (intro decode_nfkc_excerpt_Cons) simp
    with False "3.IH"(2) show ?thesis by auto
  qed
qed

lemma nfkc_idempotent_excerpt: "nfkc_idempotent nfkc_excerpt"
  by (simp add: nfkc_idempotent_def nfkc_excerpt_idem)

lemma nfkc_keeps_fixed_excerpt: "nfkc_keeps_fixed rfc_excerpt nfkc_excerpt"
proof -
  have "fixed_by_mapping rfc_excerpt c" if "c \<in> {0x61, 0x49, 0x58}" for c
    using that by (auto simp: fixed_by_mapping_def fixture_defs)
  then show ?thesis
    unfolding nfkc_keeps_fixed_def list_all_iff toCodePoints_eq_decode
    using set_decode_nfkc_excerpt by blast
qed

lemma nfkc_nonempty_excerpt: "nfkc_nonempty nfkc_excerpt"
  by (simp add: nfkc_nonempty_def)

end
