(* ===== verification/Sasl_Prep.thy ===== *)
theory Sasl_Prep
  imports Sasl_Normalizer
begin

text \<open>
  The pipeline \<open>saslprep\<close> (lines 39 to 151 of \<open>index.ts\<close>), stage by stage in the order
  of the source: the type test and the empty-input return, the mapping, the
  normalisation, the prohibited and unassigned checks, the bidirectional check. Every
  \<open>throw\<close> is an \<open>Inl\<close>; a stage that only checks returns \<open>Inr ()\<close>. After the stages
  come the exports of lines 153 to 155, the predicates in which the theorems speak
  about a run, and the lemmas and theorems on the pipeline. The tables and the
  normaliser are parameters; what a theorem needs of them beyond that it takes as a
  hypothesis from \<open>Sasl_Tables\<close> and \<open>Sasl_Normalizer\<close>.
\<close>

section \<open>Stages\<close>

definition map_stage :: "code_point_tables \<Rightarrow> js_string \<Rightarrow> code_point list" where
  "map_stage t input =
     filter (\<lambda>character. \<not> commonly_mapped_to_nothing t character)
       (map (\<lambda>character. if non_ASCII_space_characters t character then 0x20 else character)
          (toCodePoints input))"

definition normalize_stage :: "normalizer \<Rightarrow> code_point list \<Rightarrow> js_string result" where
  "normalize_stage nfkc mapped_input =
     result_bind (fromCodePoint mapped_input) (\<lambda>s. Inr (nfkc s))"

definition check_prohibited :: "code_point_tables \<Rightarrow> code_point list \<Rightarrow> unit result" where
  "check_prohibited t normalized_map =
     (let hasProhibited = list_ex (prohibited_characters t) normalized_map in
      if hasProhibited then Inl ProhibitedCharacter else Inr ())"

definition check_unassigned ::
  "code_point_tables \<Rightarrow> options \<Rightarrow> code_point list \<Rightarrow> unit result" where
  "check_unassigned t opts normalized_map =
     (if allowUnassigned opts \<noteq> Some True then
        let hasUnassigned = list_ex (unassigned_code_points t) normalized_map in
        if hasUnassigned then Inl UnassignedCodePoint else Inr ()
      else Inr ())"

definition check_bidi ::
  "code_point_tables \<Rightarrow> js_string \<Rightarrow> code_point list \<Rightarrow> unit result" where
  "check_bidi t normalized_input normalized_map =
     (let hasBidiRAL = list_ex (bidirectional_r_al t) normalized_map;
          hasBidiL = list_ex (bidirectional_l t) normalized_map in
      if hasBidiRAL \<and> hasBidiL then Inl BidiMixedDirection
      else
        result_bind (getCodePoint (first normalized_input)) (\<lambda>first_cp.
        result_bind (table_get (bidirectional_r_al t) first_cp) (\<lambda>isFirstBidiRAL.
        result_bind (getCodePoint (last_js normalized_input)) (\<lambda>last_cp.
        result_bind (table_get (bidirectional_r_al t) last_cp) (\<lambda>isLastBidiRAL.
        if hasBidiRAL \<and> \<not> (isFirstBidiRAL \<and> isLastBidiRAL) then Inl BidiEdgePlacement
        else Inr ())))))"

definition saslprep ::
  "code_point_tables \<Rightarrow> normalizer \<Rightarrow> js_value \<Rightarrow> options \<Rightarrow> js_string result" where
  "saslprep t nfkc input opts =
     (case input of
        NotString \<Rightarrow> Inl InvalidInputType
      | Str s \<Rightarrow>
          if length s = 0 then Inr []
          else
            let mapped_input = map_stage t s in
            result_bind (normalize_stage nfkc mapped_input) (\<lambda>normalized_input.
            let normalized_map = toCodePoints normalized_input in
            result_bind (check_prohibited t normalized_map) (\<lambda>_.
            result_bind (check_unassigned t opts normalized_map) (\<lambda>_.
            result_bind (check_bidi t normalized_input normalized_map) (\<lambda>_.
            Inr normalized_input)))))"

declare map_stage_def [sasl_defs] and normalize_stage_def [sasl_defs]
  and check_prohibited_def [sasl_defs] and check_unassigned_def [sasl_defs]
  and check_bidi_def [sasl_defs] and saslprep_def [sasl_defs]

text \<open>
  Lines 153 to 155: the module exports the function itself, with the function again as
  its properties \<open>saslprep\<close> and \<open>default\<close>, so that \<open>require\<close>, a named import and a
  default import all give the same function.
\<close>

record 'f module_exports =
  call :: 'f
  saslprep_property :: 'f
  default_property :: 'f

definition exports ::
  "(code_point_tables \<Rightarrow> normalizer \<Rightarrow> js_value \<Rightarrow> options \<Rightarrow> js_string result)
     module_exports" where
  "exports = \<lparr>call = saslprep, saslprep_property = saslprep, default_property = saslprep\<rparr>"

section \<open>What a run computes\<close>

text \<open>
  \<open>normalized_of\<close> is the string \<open>normalized_input\<close> of a run on a non-empty input, and
  \<open>accepted\<close> is what the four checks let through. Neither is part of the source: they
  name the two halves of the contract, ``the result is the normalised mapping of the
  input'' and ``the result passed every check''.
\<close>

definition normalized_of :: "code_point_tables \<Rightarrow> normalizer \<Rightarrow> js_string \<Rightarrow> js_string" where
  "normalized_of t nfkc s = nfkc (concat (map UTF16EncodeCodePoint (map_stage t s)))"

definition has_table :: "(code_point \<Rightarrow> bool) \<Rightarrow> js_string \<Rightarrow> bool" where
  "has_table table y = list_ex table (toCodePoints y)"

definition edges_r_al :: "code_point_tables \<Rightarrow> js_string \<Rightarrow> bool" where
  "edges_r_al t y \<longleftrightarrow>
     y \<noteq> [] \<and> bidirectional_r_al t (unat (hd y)) \<and> bidirectional_r_al t (unat (last y))"

definition unassigned_rejected :: "code_point_tables \<Rightarrow> options \<Rightarrow> js_string \<Rightarrow> bool" where
  "unassigned_rejected t opts y \<longleftrightarrow>
     allowUnassigned opts \<noteq> Some True \<and> has_table (unassigned_code_points t) y"

definition bidi_mixed :: "code_point_tables \<Rightarrow> js_string \<Rightarrow> bool" where
  "bidi_mixed t y \<longleftrightarrow> has_table (bidirectional_r_al t) y \<and> has_table (bidirectional_l t) y"

definition accepted :: "code_point_tables \<Rightarrow> options \<Rightarrow> js_string \<Rightarrow> bool" where
  "accepted t opts y \<longleftrightarrow>
     y \<noteq> [] \<and>
     \<not> has_table (prohibited_characters t) y \<and>
     \<not> unassigned_rejected t opts y \<and>
     \<not> bidi_mixed t y \<and>
     (\<not> has_table (bidirectional_r_al t) y \<or> edges_r_al t y)"

lemmas outcome_defs =
  has_table_def edges_r_al_def unassigned_rejected_def bidi_mixed_def accepted_def

section \<open>Stage lemmas\<close>

lemma set_map_stage:
  "set (map_stage t s) =
     {c. \<not> commonly_mapped_to_nothing t c \<and>
         ((c = 0x20 \<and> (\<exists>d \<in> set (toCodePoints s). non_ASCII_space_characters t d)) \<or>
          (c \<in> set (toCodePoints s) \<and> \<not> non_ASCII_space_characters t c))}"
  by (auto simp: map_stage_def)

lemma map_stage_bound: "c \<in> set (map_stage t s) \<Longrightarrow> c \<le> 0x10FFFF"
  by (auto simp: set_map_stage toCodePoints_eq_decode dest: decode_bound)

lemma length_map_stage_le: "length (map_stage t s) \<le> length s"
proof -
  have "length (map_stage t s) \<le> length (toCodePoints s)"
    by (simp add: map_stage_def)
  also have "\<dots> \<le> length s"
    by (simp add: toCodePoints_eq_decode length_decode_le)
  finally show ?thesis .
qed

lemma map_stage_Nil [simp]: "map_stage t [] = []"
  by (simp add: map_stage_def toCodePoints_eq_decode)

lemma map_stage_drop_replace:
  "map_stage t s =
     map (\<lambda>c. if non_ASCII_space_characters t c then 0x20 else c)
       (filter (\<lambda>c. \<not> dropped_by_mapping t c) (toCodePoints s))"
  by (simp add: map_stage_def filter_map o_def dropped_by_mapping_def)

lemma length_map_stage:
  "length (map_stage t s) + length (filter (dropped_by_mapping t) (toCodePoints s))
     = length (toCodePoints s)"
  using sum_length_filter_compl [of "dropped_by_mapping t" "toCodePoints s"]
  by (simp add: map_stage_drop_replace)

lemma map_stage_eq_Nil_iff:
  "map_stage t s = [] \<longleftrightarrow> list_all (dropped_by_mapping t) (toCodePoints s)"
  by (auto simp: map_stage_def filter_empty_conv list_all_iff dropped_by_mapping_def)

lemma normalized_of_eq_Nil_iff:
  "nfkc_nonempty nfkc \<Longrightarrow>
   normalized_of t nfkc s = [] \<longleftrightarrow> list_all (dropped_by_mapping t) (toCodePoints s)"
  by (simp add: normalized_of_def nfkc_nonempty_def map_stage_eq_Nil_iff)

lemma map_stage_untouched:
  assumes "\<forall>c \<in> set (toCodePoints s).
             \<not> non_ASCII_space_characters t c \<and> \<not> commonly_mapped_to_nothing t c"
  shows "map_stage t s = toCodePoints s"
  unfolding map_stage_def using assms by (intro filter_map_id) simp

lemma normalize_stage_map_stage:
  "normalize_stage nfkc (map_stage t s) = Inr (normalized_of t nfkc s)"
  by (simp add: normalize_stage_def normalized_of_def fromCodePoint_valid map_stage_bound)

lemma check_bidi_Nil:
  "check_bidi t [] m =
     (if list_ex (bidirectional_r_al t) m \<and> list_ex (bidirectional_l t) m
      then Inl BidiMixedDirection else Inl UndefinedCodePointAt)"
  by (simp add: check_bidi_def Let_def)

lemma check_bidi_nonempty:
  assumes "y \<noteq> []"
  shows "check_bidi t y m =
     (if list_ex (bidirectional_r_al t) m \<and> list_ex (bidirectional_l t) m
      then Inl BidiMixedDirection
      else if list_ex (bidirectional_r_al t) m \<and>
              \<not> (bidirectional_r_al t (unat (hd y)) \<and> bidirectional_r_al t (unat (last y)))
      then Inl BidiEdgePlacement else Inr ())"
  using assms by (simp add: check_bidi_def Let_def getCodePoint_first getCodePoint_last_js)

text \<open>The whole run on a non-empty string, as one decision list.\<close>

lemma saslprep_Str:
  assumes "s \<noteq> []"
  shows "saslprep t nfkc (Str s) opts =
     (let y = normalized_of t nfkc s in
      if has_table (prohibited_characters t) y then Inl ProhibitedCharacter
      else if unassigned_rejected t opts y then Inl UnassignedCodePoint
      else if bidi_mixed t y then Inl BidiMixedDirection
      else if y = [] then Inl UndefinedCodePointAt
      else if has_table (bidirectional_r_al t) y \<and> \<not> edges_r_al t y then Inl BidiEdgePlacement
      else Inr y)"
proof (cases "normalized_of t nfkc s = []")
  case True
  with assms show ?thesis
    by (simp add: saslprep_def normalize_stage_map_stage check_prohibited_def
        check_unassigned_def check_bidi_Nil outcome_defs Let_def toCodePoints_eq_decode)
next
  case False
  with assms show ?thesis
    by (auto simp: saslprep_def normalize_stage_map_stage check_prohibited_def
        check_unassigned_def check_bidi_nonempty outcome_defs Let_def)
qed

lemma saslprep_Nil [simp]: "saslprep t nfkc (Str []) opts = Inr []"
  by (simp add: saslprep_def)

lemma saslprep_NotString [simp]: "saslprep t nfkc NotString opts = Inl InvalidInputType"
  by (simp add: saslprep_def)

lemmas saslprep_run = saslprep_Str Let_def

lemma has_table_Nil [simp]: "\<not> has_table table []"
  by (simp add: has_table_def)

lemma has_table_nonempty: "has_table table y \<Longrightarrow> y \<noteq> []"
  by (auto simp: has_table_def)

lemma normalized_of_untouched:
  assumes "\<forall>c \<in> set (toCodePoints s).
             \<not> non_ASCII_space_characters t c \<and> \<not> commonly_mapped_to_nothing t c"
  shows "normalized_of t nfkc s = nfkc s"
  by (simp add: normalized_of_def map_stage_untouched [OF assms] toCodePoints_eq_decode
      concat_encode_decode)

lemma map_stage_fixed: "list_all (fixed_by_mapping t) (map_stage t s)"
  by (auto simp: list_all_iff set_map_stage fixed_by_mapping_def)

lemma map_stage_of_fixed:
  "list_all (fixed_by_mapping t) (toCodePoints s) \<Longrightarrow> map_stage t s = toCodePoints s"
  unfolding map_stage_def
  by (intro filter_map_id) (auto simp: list_all_iff fixed_by_mapping_def)

lemma map_stage_scalar:
  assumes "well_formed s"
  shows "\<forall>c \<in> set (map_stage t s). scalar_value c"
proof -
  have "scalar_value 0x20" by (simp add: surrogate_defs)
  with assms show ?thesis
    by (auto simp: set_map_stage toCodePoints_eq_decode well_formed_iff_scalar)
qed

lemma toCodePoints_encode_map_stage:
  "well_formed s \<Longrightarrow>
   toCodePoints (concat (map UTF16EncodeCodePoint (map_stage t s))) = map_stage t s"
  by (simp add: toCodePoints_eq_decode decode_concat_encode map_stage_scalar)

lemma normalized_of_fixed:
  "list_all (fixed_by_mapping t) (toCodePoints s) \<Longrightarrow> normalized_of t nfkc s = nfkc s"
  by (simp add: normalized_of_def map_stage_of_fixed toCodePoints_eq_decode concat_encode_decode)

text \<open>A result that the mapping and the normaliser leave alone is returned again.\<close>

lemma saslprep_fixed_point:
  assumes "saslprep t nfkc (Str x) opts = Inr y" and "normalized_of t nfkc y = y"
  shows "saslprep t nfkc (Str y) opts = Inr y"
proof (cases "y = []")
  case True
  then show ?thesis by simp
next
  case False
  with assms(1) have "x \<noteq> []" by (auto simp: saslprep_def split: if_splits)
  with assms False show ?thesis
    by (simp add: saslprep_run split: if_splits)
qed

text \<open>
  The outcome on a non-empty input depends on the input through the mapped intermediate
  only; replacing a non-ASCII space by U+0020 and removing a code point that is mapped
  to nothing leave the intermediate as it is.
\<close>

lemma saslprep_cong_map_stage:
  assumes "s \<noteq> []" and "s' \<noteq> []" and "map_stage t s = map_stage t s'"
  shows "saslprep t nfkc (Str s) opts = saslprep t nfkc (Str s') opts"
  using assms by (simp add: saslprep_Str normalized_of_def)

lemma map_stage_space_unit:
  assumes "\<not> high_surrogate (unat u)" and "\<not> low_surrogate (unat u)"
    and "non_ASCII_space_characters t (unat u)"
  shows "map_stage t (a @ u # b) = map_stage t (a @ 0x20 # b)"
proof -
  have "\<not> high_surrogate (unat (0x20 :: code_unit))" "\<not> low_surrogate (unat (0x20 :: code_unit))"
    by (simp_all add: surrogate_defs)
  then have "decode (a @ 0x20 # b) = decode a @ 0x20 # decode b"
    using decode_append_unit [of "0x20" a b] by simp
  moreover from assms(1,2) have "decode (a @ u # b) = decode a @ unat u # decode b"
    by (rule decode_append_unit)
  ultimately show ?thesis
    using assms(3) by (simp add: map_stage_def toCodePoints_eq_decode)
qed

lemma map_stage_nothing_unit:
  assumes "\<not> high_surrogate (unat u)" and "\<not> low_surrogate (unat u)"
    and "commonly_mapped_to_nothing t (unat u)" and "\<not> non_ASCII_space_characters t (unat u)"
    and "\<not> straddles a b"
  shows "map_stage t (a @ u # b) = map_stage t (a @ b)"
proof -
  from assms(1,2) have "decode (a @ u # b) = decode a @ unat u # decode b"
    by (rule decode_append_unit)
  moreover from assms(5) have "decode (a @ b) = decode a @ decode b"
    by (intro decode_append) (simp add: straddles_def)
  ultimately show ?thesis
    using assms(3,4) by (simp add: map_stage_def toCodePoints_eq_decode)
qed

lemma saslprep_Inr_cases:
  assumes "saslprep t nfkc (Str x) opts = Inr y"
  shows "y = [] \<or> (x \<noteq> [] \<and> y = normalized_of t nfkc x \<and> accepted t opts y)"
proof (cases "x = []")
  case True
  with assms show ?thesis by simp
next
  case False
  with assms show ?thesis
    by (auto simp: saslprep_run accepted_def split: if_splits)
qed

lemma not_prohibited_well_formed:
  assumes "surrogates_prohibited t" and "\<not> has_table (prohibited_characters t) y"
  shows "well_formed y"
  using assms
  by (auto simp: well_formed_iff_scalar scalar_value_iff has_table_def not_list_ex_iff
      toCodePoints_eq_decode surrogates_prohibited_def dest: decode_bound)

lemma fuse_fixed:
  assumes "supplementary_fixed t" and "list_all (fixed_by_mapping t) cps"
  shows "list_all (fixed_by_mapping t) (fuse cps)"
  using assms set_fuse_subset [of cps]
  by (auto simp: list_all_iff supplementary_fixed_def)

lemma toCodePoints_encode_map_stage_fuse:
  "toCodePoints (concat (map UTF16EncodeCodePoint (map_stage t s))) = fuse (map_stage t s)"
  by (simp add: toCodePoints_eq_decode decode_concat_encode_fuse map_stage_bound)

text \<open>
  What the first run hands to the normaliser decodes to code points that the mapping
  leaves alone, when the input is well formed or the mapping tables hold no code point
  outside the Basic Multilingual Plane; a normaliser that keeps fixed code points fixed
  then returns a string of such code points, which is the result of the run.
\<close>

lemma map_stage_encoded_fixed:
  assumes "well_formed x \<or> supplementary_fixed t"
  shows "list_all (fixed_by_mapping t)
           (toCodePoints (concat (map UTF16EncodeCodePoint (map_stage t x))))"
  using assms
proof
  assume "well_formed x"
  then show ?thesis
    by (simp add: toCodePoints_encode_map_stage map_stage_fixed)
next
  assume "supplementary_fixed t"
  then show ?thesis
    by (simp add: toCodePoints_encode_map_stage_fuse fuse_fixed map_stage_fixed)
qed

lemma saslprep_Inr_fixed:
  assumes keeps: "nfkc_keeps_fixed t nfkc"
    and either: "well_formed x \<or> supplementary_fixed t"
    and run: "saslprep t nfkc (Str x) opts = Inr y"
  shows "list_all (fixed_by_mapping t) (toCodePoints y)"
proof (cases "x = []")
  case True
  with run show ?thesis by (simp add: toCodePoints_eq_decode)
next
  case False
  with run have "y = nfkc (concat (map UTF16EncodeCodePoint (map_stage t x)))"
    by (simp add: saslprep_run normalized_of_def split: if_splits)
  with keeps map_stage_encoded_fixed [OF either] show ?thesis
    unfolding nfkc_keeps_fixed_def by blast
qed

text \<open>
  Idempotence, in the form that the theorems on it share: the normaliser is idempotent,
  and the result of the first run has only code points that the mapping leaves alone.
\<close>

lemma saslprep_idempotent_fixed:
  assumes idem: "nfkc_idempotent nfkc"
    and run: "saslprep t nfkc (Str x) opts = Inr y"
    and fixed: "list_all (fixed_by_mapping t) (toCodePoints y)"
  shows "saslprep t nfkc (Str y) opts = Inr y"
proof (cases "x = []")
  case True
  with run show ?thesis by simp
next
  case False
  with run have y: "y = normalized_of t nfkc x"
    by (simp add: saslprep_run split: if_splits)
  from fixed have "normalized_of t nfkc y = nfkc y"
    by (rule normalized_of_fixed)
  also from idem have "\<dots> = y"
    by (simp add: y normalized_of_def nfkc_idempotent_def)
  finally show ?thesis
    using run by (intro saslprep_fixed_point)
qed

section \<open>Evaluation\<close>

text \<open>The facts with which the simplifier evaluates a run on the fixtures.\<close>

lemmas saslprep_eval =
  sasl_defs fixture_defs outcome_defs normalized_of_def toCodePoints_eval
  UTF16EncodeCodePoint_def

section \<open>Properties of the pipeline\<close>

text \<open>
  C1. What success means. \<open>saslprep\<close> returns a string \<open>y\<close> exactly when the input is
  empty and \<open>y\<close> is empty, or the input is not empty, \<open>y\<close> is the NFKC normalisation of
  the mapped input, and \<open>y\<close> is accepted: it is not empty, has no prohibited code point,
  no unassigned code point unless \<open>allowUnassigned\<close> is \<open>true\<close>, does not mix RandALCat
  with LCat code points, and if it has a RandALCat code point then its first and its
  last code unit are RandALCat.
\<close>

theorem saslprep_success_iff:
  "saslprep t nfkc (Str s) opts = Inr y \<longleftrightarrow>
     (s = [] \<and> y = []) \<or> (s \<noteq> [] \<and> y = normalized_of t nfkc s \<and> accepted t opts y)"
  by (cases "s = []") (auto simp: saslprep_run accepted_def)

theorem saslprep_success_iff_witness:
  "saslprep rfc_excerpt nfkc_excerpt (Str [0x49, 0xAD, 0x58]) default_opts = Inr [0x49, 0x58]
   \<and> accepted rfc_excerpt default_opts [0x49, 0x58]"
proof -
  have "normalized_of rfc_excerpt nfkc_excerpt [0x49, 0xAD, 0x58] = [0x49, 0x58]"
    by (simp add: saslprep_eval)
  moreover have "accepted rfc_excerpt default_opts [0x49, 0x58]"
    by (simp add: saslprep_eval)
  ultimately show ?thesis
    using saslprep_success_iff
      [of rfc_excerpt nfkc_excerpt "[0x49, 0xAD, 0x58]" default_opts "[0x49, 0x58]"]
    by simp
qed

text \<open>
  C5. \<open>saslprep\<close> throws the prohibited-character error exactly when the input is a
  non-empty string whose normalised form has a code point of the prohibited table; this
  check comes before every other check of the normalised form.
\<close>

theorem saslprep_ProhibitedCharacter_iff:
  "saslprep t nfkc input opts = Inl ProhibitedCharacter \<longleftrightarrow>
     (\<exists>s. input = Str s \<and> s \<noteq> [] \<and>
          has_table (prohibited_characters t) (normalized_of t nfkc s))"
proof (cases input)
  case (Str s)
  then show ?thesis by (cases "s = []") (auto simp: saslprep_run)
qed simp

theorem saslprep_ProhibitedCharacter_iff_witness:
  "saslprep rfc_excerpt nfkc_excerpt (Str [0x07]) default_opts = Inl ProhibitedCharacter"
  using saslprep_ProhibitedCharacter_iff [of rfc_excerpt nfkc_excerpt "Str [0x07]" default_opts]
  by (simp add: saslprep_eval)

text \<open>
  C6. \<open>saslprep\<close> throws the unassigned-code-point error exactly when the input is a
  non-empty string whose normalised form has no prohibited code point, has a code point
  of the unassigned table, and \<open>opts.allowUnassigned\<close> is not \<open>true\<close> (absent and \<open>false\<close>
  both count).
\<close>

theorem saslprep_UnassignedCodePoint_iff:
  "saslprep t nfkc input opts = Inl UnassignedCodePoint \<longleftrightarrow>
     (\<exists>s. input = Str s \<and> s \<noteq> [] \<and>
          \<not> has_table (prohibited_characters t) (normalized_of t nfkc s) \<and>
          allowUnassigned opts \<noteq> Some True \<and>
          has_table (unassigned_code_points t) (normalized_of t nfkc s))"
proof (cases input)
  case (Str s)
  then show ?thesis by (cases "s = []") (auto simp: saslprep_run unassigned_rejected_def)
qed simp

theorem saslprep_UnassignedCodePoint_iff_witness:
  "saslprep rfc_excerpt nfkc_excerpt (Str [0x61, 0x0221]) \<lparr>allowUnassigned = Some False\<rparr>
     = Inl UnassignedCodePoint
   \<and> saslprep rfc_excerpt nfkc_excerpt (Str [0x61, 0x0221]) \<lparr>allowUnassigned = Some True\<rparr>
     \<noteq> Inl UnassignedCodePoint"
  using saslprep_UnassignedCodePoint_iff
      [of rfc_excerpt nfkc_excerpt "Str [0x61, 0x0221]" "\<lparr>allowUnassigned = Some False\<rparr>"]
    saslprep_UnassignedCodePoint_iff
      [of rfc_excerpt nfkc_excerpt "Str [0x61, 0x0221]" "\<lparr>allowUnassigned = Some True\<rparr>"]
  by (simp add: saslprep_eval)

text \<open>
  C7. \<open>saslprep\<close> throws the mixed-direction error exactly when the input is a non-empty
  string whose normalised form passed the prohibited and unassigned checks and has both
  a RandALCat and an LCat code point.
\<close>

theorem saslprep_BidiMixedDirection_iff:
  "saslprep t nfkc input opts = Inl BidiMixedDirection \<longleftrightarrow>
     (\<exists>s. input = Str s \<and> s \<noteq> [] \<and>
          \<not> has_table (prohibited_characters t) (normalized_of t nfkc s) \<and>
          \<not> unassigned_rejected t opts (normalized_of t nfkc s) \<and>
          bidi_mixed t (normalized_of t nfkc s))"
proof (cases input)
  case (Str s)
  then show ?thesis by (cases "s = []") (auto simp: saslprep_run)
qed simp

theorem saslprep_BidiMixedDirection_iff_witness:
  "saslprep rfc_excerpt nfkc_excerpt (Str [0x0627, 0x61, 0x0628]) default_opts
     = Inl BidiMixedDirection"
  using saslprep_BidiMixedDirection_iff
      [of rfc_excerpt nfkc_excerpt "Str [0x0627, 0x61, 0x0628]" default_opts]
  by (simp add: saslprep_eval)

text \<open>
  C8. \<open>saslprep\<close> throws the edge-placement error exactly when the input is a non-empty
  string whose normalised form passed the earlier checks, has a RandALCat code point and
  no LCat code point, and whose first or last code unit is not in the RandALCat table.
\<close>

theorem saslprep_BidiEdgePlacement_iff:
  "saslprep t nfkc input opts = Inl BidiEdgePlacement \<longleftrightarrow>
     (\<exists>s. input = Str s \<and> s \<noteq> [] \<and>
          \<not> has_table (prohibited_characters t) (normalized_of t nfkc s) \<and>
          \<not> unassigned_rejected t opts (normalized_of t nfkc s) \<and>
          has_table (bidirectional_r_al t) (normalized_of t nfkc s) \<and>
          \<not> has_table (bidirectional_l t) (normalized_of t nfkc s) \<and>
          \<not> edges_r_al t (normalized_of t nfkc s))"
proof (cases input)
  case (Str s)
  then show ?thesis
    by (cases "s = []") (auto simp: saslprep_run bidi_mixed_def dest: has_table_nonempty)
qed simp

theorem saslprep_BidiEdgePlacement_iff_witness:
  "saslprep rfc_excerpt nfkc_excerpt (Str [0x0627, 0x31]) default_opts = Inl BidiEdgePlacement"
  using saslprep_BidiEdgePlacement_iff
      [of rfc_excerpt nfkc_excerpt "Str [0x0627, 0x31]" default_opts]
  by (simp add: saslprep_eval)

lemma saslprep_UndefinedCodePointAt_normalized:
  "saslprep t nfkc input opts = Inl UndefinedCodePointAt \<longleftrightarrow>
     (\<exists>s. input = Str s \<and> s \<noteq> [] \<and> normalized_of t nfkc s = [])"
proof (cases input)
  case (Str s)
  then show ?thesis
    by (cases "s = []") (auto simp: saslprep_run unassigned_rejected_def bidi_mixed_def)
qed simp

text \<open>
  C9. A run throws the \<open>TypeError\<close> of \<open>getCodePoint\<close> (\<open>codePointAt\<close> of \<open>undefined\<close>)
  exactly when the input is a non-empty string whose normalised form is empty:
  \<open>first(normalized_input)\<close> is then \<open>undefined\<close>, and lines 136 to 141 evaluate the edge
  lookups before testing \<open>hasBidiRAL\<close>. When the normaliser returns the empty string
  for the empty string only, as NFKC does, these are the non-empty inputs of which the
  mapping drops every code point, for example a string of soft hyphens.
\<close>

theorem saslprep_UndefinedCodePointAt_iff:
  "(saslprep t nfkc input opts = Inl UndefinedCodePointAt \<longleftrightarrow>
      (\<exists>s. input = Str s \<and> s \<noteq> [] \<and> normalized_of t nfkc s = [])) \<and>
   (nfkc_nonempty nfkc \<longrightarrow>
      (saslprep t nfkc input opts = Inl UndefinedCodePointAt \<longleftrightarrow>
         (\<exists>s. input = Str s \<and> s \<noteq> [] \<and>
              list_all (dropped_by_mapping t) (toCodePoints s))))"
  by (simp add: saslprep_UndefinedCodePointAt_normalized normalized_of_eq_Nil_iff)

theorem saslprep_UndefinedCodePointAt_iff_witness:
  "nfkc_nonempty nfkc_excerpt \<and>
   list_all (dropped_by_mapping rfc_excerpt) (toCodePoints [0xAD, 0xAD]) \<and>
   saslprep rfc_excerpt nfkc_excerpt (Str [0xAD, 0xAD]) default_opts = Inl UndefinedCodePointAt"
  using saslprep_UndefinedCodePointAt_iff
      [of rfc_excerpt nfkc_excerpt "Str [0xAD, 0xAD]" default_opts]
  by (simp add: nfkc_nonempty_excerpt dropped_by_mapping_def table_fixture_defs
      toCodePoints_eval)

text \<open>
  C10. Two exceptions cannot happen in any run: \<open>String.fromCodePoint\<close> never throws its
  \<open>RangeError\<close>, because the mapped code points are at most \<open>0x10FFFF\<close>, and no table is
  ever asked about \<open>undefined\<close>, because \<open>getCodePoint\<close> is only applied to \<open>undefined\<close>
  or to a one-unit string.
\<close>

theorem saslprep_unreachable_errors:
  "saslprep t nfkc input opts \<noteq> Inl UndefinedTableLookup \<and>
   saslprep t nfkc input opts \<noteq> Inl (InvalidCodePoint c)"
proof (cases input)
  case (Str s)
  then show ?thesis by (cases "s = []") (simp_all add: saslprep_run)
qed simp

text \<open>
  C22. The mapping is done for good. No code point of the commonly-mapped-to-nothing
  table is left in the mapped intermediate. When the normaliser keeps fixed code points
  fixed, and the input is well formed or the mapping tables hold no code point outside
  the Basic Multilingual Plane, none is in a returned string either, a code point of
  the non-ASCII-space table in a returned string is U+0020 itself, and the mapping step
  applied to a returned string changes nothing.
\<close>

theorem saslprep_result_unmapped:
  "(\<forall>c \<in> set (map_stage t s). \<not> commonly_mapped_to_nothing t c) \<and>
   (nfkc_keeps_fixed t nfkc \<and> (well_formed s \<or> supplementary_fixed t) \<and>
    saslprep t nfkc (Str s) opts = Inr y \<longrightarrow>
      (\<forall>c \<in> set (toCodePoints y).
         \<not> commonly_mapped_to_nothing t c \<and> (non_ASCII_space_characters t c \<longrightarrow> c = 0x20)) \<and>
      map_stage t y = toCodePoints y)"
proof (intro conjI impI; (elim conjE)?)
  show "\<forall>c \<in> set (map_stage t s). \<not> commonly_mapped_to_nothing t c"
    by (simp add: set_map_stage)
next
  assume "nfkc_keeps_fixed t nfkc" "well_formed s \<or> supplementary_fixed t"
    "saslprep t nfkc (Str s) opts = Inr y"
  then have fixed: "list_all (fixed_by_mapping t) (toCodePoints y)"
    by (rule saslprep_Inr_fixed)
  then show "\<forall>c \<in> set (toCodePoints y).
      \<not> commonly_mapped_to_nothing t c \<and> (non_ASCII_space_characters t c \<longrightarrow> c = 0x20)"
    by (simp add: list_all_iff fixed_by_mapping_def)
  from fixed show "map_stage t y = toCodePoints y"
    by (rule map_stage_of_fixed)
qed

theorem saslprep_result_unmapped_witness:
  "commonly_mapped_to_nothing rfc_excerpt 0xAD \<and>
   0xAD \<in> set (toCodePoints [0x49, 0xAD, 0x58]) \<and>
   saslprep rfc_excerpt nfkc_excerpt (Str [0x49, 0xAD, 0x58]) default_opts = Inr [0x49, 0x58] \<and>
   0xAD \<notin> set (toCodePoints [0x49, 0x58]) \<and>
   map_stage rfc_excerpt [0x49, 0x58] = toCodePoints [0x49, 0x58]"
proof -
  have run: "saslprep rfc_excerpt nfkc_excerpt (Str [0x49, 0xAD, 0x58]) default_opts
      = Inr [0x49, 0x58]"
    by (simp add: saslprep_eval)
  have "well_formed [0x49, 0xAD, 0x58]"
    by (simp add: surrogate_defs)
  with run nfkc_keeps_fixed_excerpt
    saslprep_result_unmapped [of rfc_excerpt "[0x49, 0xAD, 0x58]" nfkc_excerpt default_opts
      "[0x49, 0x58]"]
  show ?thesis
    by (simp add: table_fixture_defs toCodePoints_eval)
qed

text \<open>
  C23. Every code point of the non-ASCII-space table is replaced by U+0020 in the mapped
  intermediate: a code point of that table that is still there is U+0020 itself, and
  when the input has one and U+0020 is not mapped to nothing, U+0020 is there. In
  full: the mapped intermediate is the code points of the input that the mapping does
  not drop, in their order and as often as they occur, each non-ASCII space replaced by
  U+0020; its length is the number of code points less the number of dropped ones.
\<close>

theorem map_stage_spaces:
  "(c \<in> set (map_stage t s) \<and> non_ASCII_space_characters t c \<longrightarrow> c = 0x20) \<and>
   (d \<in> set (toCodePoints s) \<and> non_ASCII_space_characters t d \<and>
    \<not> commonly_mapped_to_nothing t 0x20 \<longrightarrow> 0x20 \<in> set (map_stage t s)) \<and>
   map_stage t s =
     map (\<lambda>c. if non_ASCII_space_characters t c then 0x20 else c)
       (filter (\<lambda>c. \<not> dropped_by_mapping t c) (toCodePoints s)) \<and>
   length (map_stage t s) + length (filter (dropped_by_mapping t) (toCodePoints s))
     = length (toCodePoints s)"
proof (intro conjI)
  show "map_stage t s =
      map (\<lambda>c. if non_ASCII_space_characters t c then 0x20 else c)
        (filter (\<lambda>c. \<not> dropped_by_mapping t c) (toCodePoints s))"
    by (rule map_stage_drop_replace)
  show "length (map_stage t s) + length (filter (dropped_by_mapping t) (toCodePoints s))
      = length (toCodePoints s)"
    by (rule length_map_stage)
qed (auto simp: set_map_stage)

theorem map_stage_spaces_witness:
  "map_stage rfc_excerpt [0x61, 0xA0, 0x62] = [0x61, 0x20, 0x62] \<and>
   0xA0 \<in> set (toCodePoints [0x61, 0xA0, 0x62]) \<and>
   non_ASCII_space_characters rfc_excerpt 0xA0 \<and>
   \<not> commonly_mapped_to_nothing rfc_excerpt 0x20 \<and>
   0x20 \<in> set (map_stage rfc_excerpt [0x61, 0xA0, 0x62])"
  using map_stage_spaces [of _ rfc_excerpt "[0x61, 0xA0, 0x62]" "0xA0"]
  by (simp add: saslprep_eval dropped_by_mapping_def)

text \<open>
  C24. \<open>allowUnassigned: true\<close> switches off the unassigned check and nothing else: with
  it no run throws the unassigned error, and a run that did not throw that error without
  it has the same outcome with it.
\<close>

theorem saslprep_allowUnassigned_only_unassigned:
  "saslprep t nfkc input (opts\<lparr>allowUnassigned := Some True\<rparr>) \<noteq> Inl UnassignedCodePoint \<and>
   (saslprep t nfkc input opts \<noteq> Inl UnassignedCodePoint \<longrightarrow>
    saslprep t nfkc input (opts\<lparr>allowUnassigned := Some True\<rparr>) = saslprep t nfkc input opts)"
proof (cases input)
  case (Str s)
  then show ?thesis
    by (cases "s = []") (auto simp: saslprep_run unassigned_rejected_def)
qed simp

theorem saslprep_allowUnassigned_only_unassigned_witness:
  "saslprep rfc_excerpt nfkc_excerpt (Str [0x61, 0x0221]) default_opts = Inl UnassignedCodePoint \<and>
   saslprep rfc_excerpt nfkc_excerpt (Str [0x61, 0x0221]) (default_opts\<lparr>allowUnassigned := Some True\<rparr>)
     = Inr [0x61, 0x0221] \<and>
   saslprep rfc_excerpt nfkc_excerpt (Str [0x07]) default_opts \<noteq> Inl UnassignedCodePoint \<and>
   saslprep rfc_excerpt nfkc_excerpt (Str [0x07]) (default_opts\<lparr>allowUnassigned := Some True\<rparr>)
     = Inl ProhibitedCharacter"
  using saslprep_allowUnassigned_only_unassigned
      [of rfc_excerpt nfkc_excerpt "Str [0x07]" default_opts]
  by (simp add: saslprep_eval)

text \<open>
  C25. What a caller may rely on when \<open>saslprep\<close> returns: the result has no prohibited
  code point, no unassigned code point unless \<open>allowUnassigned\<close> is \<open>true\<close>, and not both
  a RandALCat and an LCat code point; and it is empty only for the empty input.
\<close>

theorem saslprep_output_safe:
  "saslprep t nfkc (Str s) opts = Inr y \<Longrightarrow>
   \<not> list_ex (prohibited_characters t) (toCodePoints y) \<and>
   (allowUnassigned opts = Some True \<or> \<not> list_ex (unassigned_code_points t) (toCodePoints y)) \<and>
   \<not> (list_ex (bidirectional_r_al t) (toCodePoints y) \<and>
      list_ex (bidirectional_l t) (toCodePoints y)) \<and>
   (y = [] \<longleftrightarrow> s = [])"
  by (cases "s = []") (auto simp: saslprep_run outcome_defs split: if_splits)

theorem saslprep_output_safe_witness:
  "saslprep rfc_excerpt nfkc_excerpt (Str [0x61, 0xA0, 0x62]) default_opts = Inr [0x61, 0x20, 0x62]
   \<and> \<not> list_ex (prohibited_characters rfc_excerpt) (toCodePoints [0x61, 0x20, 0x62])"
proof -
  have run: "saslprep rfc_excerpt nfkc_excerpt (Str [0x61, 0xA0, 0x62]) default_opts
      = Inr [0x61, 0x20, 0x62]"
    by (simp add: saslprep_eval)
  from saslprep_output_safe [OF run] run show ?thesis by simp
qed

text \<open>
  C28. The mapping can join two unpaired surrogates. Take a high surrogate \<open>h\<close>, a low
  surrogate \<open>l\<close> and between them a unit \<open>u\<close>, not a surrogate, that the mapping drops.
  The first decoding reads three code points; the mapping leaves the two halves, which
  are encoded next to each other, and the second decoding reads them as the one code
  point of the pair. When the normaliser leaves the two units alone and that code point
  is in none of the prohibited, unassigned and RandALCat tables, the run returns \<open>h\<close>
  and \<open>l\<close>, whatever the tables say of the surrogate code points of the input. For U+D83D,
  U+00AD, U+DE00 both surrogates are prohibited code points (table C.5), and the run
  returns the encoding of U+1F600.
\<close>

theorem map_stage_fuses_surrogates:
  assumes h: "high_surrogate (unat h)" and l: "low_surrogate (unat l)"
    and u: "\<not> high_surrogate (unat u)" "\<not> low_surrogate (unat u)"
    and dropped: "dropped_by_mapping t (unat u)"
    and kept: "fixed_by_mapping t (unat h)" "fixed_by_mapping t (unat l)"
    and nfkc: "nfkc [h, l] = [h, l]"
    and pair: "\<not> prohibited_characters t (pair_value (unat h) (unat l))"
      "\<not> unassigned_code_points t (pair_value (unat h) (unat l))"
      "\<not> bidirectional_r_al t (pair_value (unat h) (unat l))"
  shows "toCodePoints [h, u, l] = [unat h, unat u, unat l] \<and>
         map_stage t [h, u, l] = [unat h, unat l] \<and>
         toCodePoints (normalized_of t nfkc [h, u, l]) = [pair_value (unat h) (unat l)] \<and>
         saslprep t nfkc (Str [h, u, l]) opts = Inr [h, l]"
proof -
  from h l u have decoded: "toCodePoints [h, u, l] = [unat h, unat u, unat l]"
    by (simp add: toCodePoints_eq_decode)
  with dropped kept have mapped: "map_stage t [h, u, l] = [unat h, unat l]"
    by (auto simp: map_stage_def fixed_by_mapping_def dropped_by_mapping_def)
  with nfkc have normalized: "normalized_of t nfkc [h, u, l] = [h, l]"
    by (simp add: normalized_of_def)
  from h l have joined: "toCodePoints [h, l] = [pair_value (unat h) (unat l)]"
    by (simp add: toCodePoints_eq_decode)
  with pair normalized have "saslprep t nfkc (Str [h, u, l]) opts = Inr [h, l]"
    by (simp add: saslprep_run outcome_defs)
  with decoded mapped normalized joined show ?thesis
    by simp
qed

theorem map_stage_fuses_surrogates_witness:
  "toCodePoints [0xD83D, 0xAD, 0xDE00] = [0xD83D, 0xAD, 0xDE00] \<and>
   prohibited_characters rfc_excerpt 0xD83D \<and>
   map_stage rfc_excerpt [0xD83D, 0xAD, 0xDE00] = [0xD83D, 0xDE00] \<and>
   toCodePoints (normalized_of rfc_excerpt nfkc_excerpt [0xD83D, 0xAD, 0xDE00]) = [0x1F600] \<and>
   saslprep rfc_excerpt nfkc_excerpt (Str [0xD83D, 0xAD, 0xDE00]) default_opts
     = Inr [0xD83D, 0xDE00]"
  using map_stage_fuses_surrogates
      [of "0xD83D" "0xDE00" "0xAD" rfc_excerpt nfkc_excerpt default_opts]
  by (simp add: fixture_defs surrogate_defs fixed_by_mapping_def dropped_by_mapping_def)

text \<open>
  C21. Inputs that differ in what the mapping removes are prepared alike. For a code
  unit \<open>u\<close> that is not a surrogate: if \<open>u\<close> is a non-ASCII space, the input with \<open>u\<close> and
  the input with U+0020 in its place have the same outcome; if \<open>u\<close> is mapped to nothing
  (and is not also a non-ASCII space, which the code replaces first), the input with
  \<open>u\<close> and the input without it have the same outcome, provided something is left and
  removing \<open>u\<close> does not bring a high and a low surrogate together.
\<close>

theorem saslprep_canonical_input:
  assumes "\<not> high_surrogate (unat u)" and "\<not> low_surrogate (unat u)"
  shows "(non_ASCII_space_characters t (unat u) \<longrightarrow>
            saslprep t nfkc (Str (a @ u # b)) opts = saslprep t nfkc (Str (a @ 0x20 # b)) opts) \<and>
         (commonly_mapped_to_nothing t (unat u) \<and> \<not> non_ASCII_space_characters t (unat u) \<and>
          a @ b \<noteq> [] \<and> \<not> straddles a b \<longrightarrow>
            saslprep t nfkc (Str (a @ u # b)) opts = saslprep t nfkc (Str (a @ b)) opts)"
  using assms
  by (auto intro!: saslprep_cong_map_stage map_stage_space_unit map_stage_nothing_unit)

theorem saslprep_canonical_input_witness:
  "saslprep rfc_excerpt nfkc_excerpt (Str [0x61, 0xA0, 0x62]) default_opts
     = saslprep rfc_excerpt nfkc_excerpt (Str [0x61, 0x20, 0x62]) default_opts \<and>
   saslprep rfc_excerpt nfkc_excerpt (Str [0x49, 0xAD, 0x58]) default_opts
     = saslprep rfc_excerpt nfkc_excerpt (Str [0x49, 0x58]) default_opts \<and>
   saslprep rfc_excerpt nfkc_excerpt (Str [0x49, 0x58]) default_opts = Inr [0x49, 0x58]"
  using saslprep_canonical_input [of "0xA0" rfc_excerpt nfkc_excerpt "[0x61]" "[0x62]" default_opts]
    saslprep_canonical_input [of "0xAD" rfc_excerpt nfkc_excerpt "[0x49]" "[0x58]" default_opts]
  by (simp add: saslprep_eval straddles_def)

text \<open>
  C29. The two guards before any work, and nothing else, give their outcomes: a call
  throws the \<open>TypeError\<close> \<open>Expected string.\<close> exactly when the input is not a string, and
  it returns the empty string exactly when the input is the empty string, whatever the
  tables, the normaliser and the options are. A non-empty input never gives the empty
  string: if it normalises to the empty string, the call throws.
\<close>

theorem saslprep_guards:
  "(saslprep t nfkc input opts = Inl InvalidInputType \<longleftrightarrow> input = NotString) \<and>
   (saslprep t nfkc input opts = Inr [] \<longleftrightarrow> input = Str [])"
proof (cases input)
  case (Str s)
  then show ?thesis by (cases "s = []") (auto simp: saslprep_run split: if_splits)
qed simp

text \<open>
  C35. The type of the result. When the tables make every surrogate code point
  prohibited, as table C.5 of RFC 3454 does, a string that \<open>saslprep\<close> returns is well
  formed UTF-16: it has no unpaired surrogate, whatever the input and the normaliser
  were. The input of the witness has two unpaired surrogates around a soft hyphen; the
  result has them as one pair.
\<close>

theorem saslprep_output_well_formed:
  assumes "surrogates_prohibited t" and "saslprep t nfkc (Str x) opts = Inr y"
  shows "well_formed y"
  using saslprep_Inr_cases [OF assms(2)] not_prohibited_well_formed [OF assms(1), of y]
  by (auto simp: accepted_def)

theorem saslprep_output_well_formed_witness:
  "well_formed [0xD83D, 0xDE00, 0x0049, 0x0058]"
  using saslprep_output_well_formed
    [of rfc_excerpt nfkc_excerpt "[0xD83D, 0x00AD, 0xDE00, 0x2168]" default_opts
      "[0xD83D, 0xDE00, 0x0049, 0x0058]"]
  by (simp add: surrogates_prohibited_rfc_excerpt saslprep_eval)

end
