(* ===== verification/Sasl_Spec.thy ===== *)
theory Sasl_Spec
  imports Sasl_Prep
begin

text \<open>
  The contract of the pipeline as the specification states it (section 4.2, steps 1 to
  9), and its relation to the code. \<open>prepare\<close> works on code points throughout: its
  bidirectional edge test reads the first and the last entry of the decoded normalised
  sequence, where the code reads the first and the last code unit of the normalised
  string. The theory proves that the code implements \<open>prepare\<close> whenever the normalised
  string is not empty and neither starts nor ends inside a surrogate pair, or is not
  empty and the RandALCat table lies in the Basic Multilingual Plane; it characterises
  the inputs on which the two differ; and it proves that the code is sound for the
  specification when the RandALCat table holds no surrogate value: where they differ,
  the specification returns a string and the code throws.
\<close>

section \<open>The specified function\<close>

definition prepare ::
  "code_point_tables \<Rightarrow> normalizer \<Rightarrow> js_value \<Rightarrow> options \<Rightarrow> js_string result" where
  "prepare t nfkc input opts =
     (case input of
        NotString \<Rightarrow> Inl InvalidInputType
      | Str s \<Rightarrow>
          if s = [] then Inr []
          else
            let spaced = map (\<lambda>c. if non_ASCII_space_characters t c then 0x20 else c) (decode s);
                mapped = filter (\<lambda>c. \<not> commonly_mapped_to_nothing t c) spaced;
                normalized = nfkc (concat (map UTF16EncodeCodePoint mapped));
                nseq = decode normalized;
                hasRAL = list_ex (bidirectional_r_al t) nseq;
                hasL = list_ex (bidirectional_l t) nseq
            in
              if list_ex (prohibited_characters t) nseq then Inl ProhibitedCharacter
              else if allowUnassigned opts \<noteq> Some True \<and>
                      list_ex (unassigned_code_points t) nseq then Inl UnassignedCodePoint
              else if hasRAL \<and> hasL then Inl BidiMixedDirection
              else if hasRAL \<and>
                      \<not> (bidirectional_r_al t (hd nseq) \<and> bidirectional_r_al t (last nseq))
              then Inl BidiEdgePlacement
              else Inr normalized)"

text \<open>
  The edge test of step 8, on the first and the last code point of the normalised
  sequence; \<open>edges_r_al\<close> of \<open>Sasl_Prep\<close> is the edge test of the code, on the first and
  the last code unit.
\<close>

definition edges_r_al_points :: "code_point_tables \<Rightarrow> js_string \<Rightarrow> bool" where
  "edges_r_al_points t y \<longleftrightarrow>
     bidirectional_r_al t (hd (toCodePoints y)) \<and> bidirectional_r_al t (last (toCodePoints y))"

section \<open>Where code units and code points agree\<close>

lemma hd_decode_not_high:
  "y \<noteq> [] \<Longrightarrow> \<not> high_surrogate (unat (hd y)) \<Longrightarrow> hd (decode y) = unat (hd y)"
  by (cases y) (simp_all add: hd_decode)

lemma last_decode_not_low:
  "y \<noteq> [] \<Longrightarrow> \<not> low_surrogate (unat (last y)) \<Longrightarrow> last (decode y) = unat (last y)"
  by (simp add: last_decode)

text \<open>
  A table lies in the Basic Multilingual Plane when it holds no surrogate value and no
  code point from \<open>0x10000\<close> on. Table D.1 of RFC 3454 is such a table.
\<close>

lemma bmp_table_hd:
  assumes bmp: "\<And>c. table c \<Longrightarrow> c < 0xD800 \<or> (0xDFFF < c \<and> c < 0x10000)"
    and "y \<noteq> []"
  shows "table (hd (decode y)) \<longleftrightarrow> table (unat (hd y))"
proof (cases "high_surrogate (unat (hd y))")
  case True
  from assms(2) obtain u rest where y: "y = u # rest" by (cases y) auto
  from True y bmp [of "unat u"] have nu: "\<not> table (unat u)"
    by (auto simp: high_surrogate_def)
  show ?thesis
  proof (cases "rest \<noteq> [] \<and> low_surrogate (unat (hd rest))")
    case paired: True
    with True y pair_value_bounds(1) [of "unat u" "unat (hd rest)"]
      bmp [of "pair_value (unat u) (unat (hd rest))"]
    have "\<not> table (pair_value (unat u) (unat (hd rest)))" by auto
    with paired True y nu show ?thesis by (simp add: hd_decode)
  next
    case False
    with y show ?thesis by (auto simp: hd_decode)
  qed
next
  case False
  with assms(2) show ?thesis by (simp add: hd_decode_not_high)
qed

lemma bmp_table_last:
  assumes bmp: "\<And>c. table c \<Longrightarrow> c < 0xD800 \<or> (0xDFFF < c \<and> c < 0x10000)"
    and "y \<noteq> []"
  shows "table (last (decode y)) \<longleftrightarrow> table (unat (last y))"
proof (cases "low_surrogate (unat (last y))")
  case True
  with bmp [of "unat (last y)"] have nl: "\<not> table (unat (last y))"
    by (auto simp: low_surrogate_def)
  show ?thesis
  proof (cases "2 \<le> length y \<and> high_surrogate (unat (last (butlast y)))")
    case paired: True
    with True pair_value_bounds(1) [of "unat (last (butlast y))" "unat (last y)"]
      bmp [of "pair_value (unat (last (butlast y))) (unat (last y))"]
    have "\<not> table (pair_value (unat (last (butlast y))) (unat (last y)))" by auto
    with paired True nl assms(2) show ?thesis by (simp add: last_decode)
  next
    case False
    with assms(2) show ?thesis by (auto simp: last_decode)
  qed
next
  case False
  with assms(2) show ?thesis by (simp add: last_decode_not_low)
qed

lemma prepare_Str:
  assumes "s \<noteq> []"
  shows "prepare t nfkc (Str s) opts =
     (let y = normalized_of t nfkc s in
      if has_table (prohibited_characters t) y then Inl ProhibitedCharacter
      else if unassigned_rejected t opts y then Inl UnassignedCodePoint
      else if bidi_mixed t y then Inl BidiMixedDirection
      else if has_table (bidirectional_r_al t) y \<and>
              \<not> (bidirectional_r_al t (hd (decode y)) \<and> bidirectional_r_al t (last (decode y)))
      then Inl BidiEdgePlacement
      else Inr y)"
proof -
  have "concat (map UTF16EncodeCodePoint
          (filter (\<lambda>c. \<not> commonly_mapped_to_nothing t c)
            (map (\<lambda>c. if non_ASCII_space_characters t c then 0x20 else c) (decode s))))
        = concat (map UTF16EncodeCodePoint (map_stage t s))"
    by (simp add: map_stage_def toCodePoints_eq_decode)
  with assms show ?thesis
    by (auto simp: prepare_def normalized_of_def outcome_defs Let_def toCodePoints_eq_decode)
qed

lemma prepare_Str_points:
  assumes "s \<noteq> []"
  shows "prepare t nfkc (Str s) opts =
     (let y = normalized_of t nfkc s in
      if has_table (prohibited_characters t) y then Inl ProhibitedCharacter
      else if unassigned_rejected t opts y then Inl UnassignedCodePoint
      else if bidi_mixed t y then Inl BidiMixedDirection
      else if has_table (bidirectional_r_al t) y \<and> \<not> edges_r_al_points t y
      then Inl BidiEdgePlacement
      else Inr y)"
  using assms by (simp add: prepare_Str Let_def edges_r_al_points_def toCodePoints_eq_decode)

text \<open>
  When the table holds no surrogate value, a code unit that is in the table is a code
  point of its own, so the edge test of the code implies the edge test of the
  specification.
\<close>

lemma edges_units_imp_points:
  assumes "\<forall>c. bidirectional_r_al t c \<longrightarrow> \<not> high_surrogate c \<and> \<not> low_surrogate c"
    and "edges_r_al t y"
  shows "edges_r_al_points t y"
  using assms
  by (auto simp: edges_r_al_def edges_r_al_points_def toCodePoints_eq_decode
      hd_decode_not_high last_decode_not_low)

section \<open>Refinement and divergence\<close>

text \<open>
  C11. The code implements the specified \<open>prepare\<close> on every input whose normalised
  string is not empty, does not start with a high surrogate and does not end with a low
  surrogate: on such inputs the first and last code units are the first and last code
  points, and \<open>saslprep\<close> and \<open>prepare\<close> return the same string or the same error.
\<close>

theorem saslprep_refines_prepare:
  assumes "normalized_of t nfkc s \<noteq> []"
    and "\<not> high_surrogate (unat (hd (normalized_of t nfkc s)))"
    and "\<not> low_surrogate (unat (last (normalized_of t nfkc s)))"
  shows "saslprep t nfkc (Str s) opts = prepare t nfkc (Str s) opts"
proof (cases "s = []")
  case True
  then show ?thesis by (simp add: prepare_def)
next
  case False
  with assms show ?thesis
    by (simp add: saslprep_run prepare_Str edges_r_al_def hd_decode_not_high
        last_decode_not_low)
qed

theorem saslprep_refines_prepare_witness:
  "saslprep rfc_excerpt nfkc_excerpt (Str [0x0627, 0x31]) default_opts = Inl BidiEdgePlacement \<and>
   prepare rfc_excerpt nfkc_excerpt (Str [0x0627, 0x31]) default_opts = Inl BidiEdgePlacement"
proof -
  have n: "normalized_of rfc_excerpt nfkc_excerpt [0x0627, 0x31] = [0x0627, 0x31]"
    by (simp add: saslprep_eval)
  have "saslprep rfc_excerpt nfkc_excerpt (Str [0x0627, 0x31]) default_opts
      = prepare rfc_excerpt nfkc_excerpt (Str [0x0627, 0x31]) default_opts"
    by (rule saslprep_refines_prepare) (simp_all add: n surrogate_defs)
  then show ?thesis by (simp add: saslprep_eval)
qed

text \<open>
  C12. Where the code departs from the specification, exactly. \<open>saslprep\<close> and \<open>prepare\<close>
  differ on an input if and only if it is a non-empty string whose normalised form
  passes the prohibited, the unassigned and the mixed-direction check and either is
  empty, or has a RandALCat code point and the edge test on code units (lines 136 to
  141) and the edge test on code points (step 8) give different answers. On every other
  input, for all tables, normalisers and options, the code returns what the
  specification says. The witness has U+10800 to U+1083F in the RandALCat table and
  the one-character string U+10800: \<open>prepare\<close> accepts it, and \<open>saslprep\<close> throws the
  edge-placement error, because it looks the surrogate halves up in the table.
\<close>

theorem saslprep_diverges_iff:
  "saslprep t nfkc input opts \<noteq> prepare t nfkc input opts \<longleftrightarrow>
     (\<exists>s. input = Str s \<and> s \<noteq> [] \<and>
          \<not> has_table (prohibited_characters t) (normalized_of t nfkc s) \<and>
          \<not> unassigned_rejected t opts (normalized_of t nfkc s) \<and>
          \<not> bidi_mixed t (normalized_of t nfkc s) \<and>
          (normalized_of t nfkc s = [] \<or>
           has_table (bidirectional_r_al t) (normalized_of t nfkc s) \<and>
           edges_r_al t (normalized_of t nfkc s)
             \<noteq> edges_r_al_points t (normalized_of t nfkc s)))"
proof (cases input)
  case (Str s)
  show ?thesis
  proof (cases "s = []")
    case True
    with Str show ?thesis by (simp add: prepare_def)
  next
    case False
    with Str show ?thesis
      by (auto simp: saslprep_run prepare_Str_points Let_def dest: has_table_nonempty)
  qed
qed (simp add: prepare_def)

theorem saslprep_diverges_iff_witness:
  "saslprep (rfc_excerpt\<lparr>bidirectional_r_al := in_ranges [(0x10800, 0x1083F)]\<rparr>) nfkc_excerpt
     (Str [0xD802, 0xDC00]) default_opts = Inl BidiEdgePlacement \<and>
   prepare (rfc_excerpt\<lparr>bidirectional_r_al := in_ranges [(0x10800, 0x1083F)]\<rparr>) nfkc_excerpt
     (Str [0xD802, 0xDC00]) default_opts = Inr [0xD802, 0xDC00]"
  using saslprep_diverges_iff
    [of "rfc_excerpt\<lparr>bidirectional_r_al := in_ranges [(0x10800, 0x1083F)]\<rparr>" nfkc_excerpt
      "Str [0xD802, 0xDC00]" default_opts]
  by (simp add: saslprep_eval prepare_def)

text \<open>
  C13. The code is sound for the specification when the RandALCat table holds no
  surrogate value, as table D.1 of RFC 3454 does not: on every input, \<open>saslprep\<close> and
  \<open>prepare\<close> have the same outcome, or \<open>prepare\<close> returns the normalised string and
  \<open>saslprep\<close> throws the edge-placement error or the \<open>TypeError\<close> of \<open>getCodePoint\<close>. So a
  string that the code returns is the string that the specification returns, and an
  error that the specification reports is the error that the code throws; the code
  only rejects more. On the soft hyphen alone \<open>prepare\<close> returns the empty string and
  \<open>saslprep\<close> throws the \<open>TypeError\<close>, which is none of the specified errors.
\<close>

theorem saslprep_sound_for_prepare:
  assumes "\<forall>c. bidirectional_r_al t c \<longrightarrow> \<not> high_surrogate c \<and> \<not> low_surrogate c"
  shows "(saslprep t nfkc input opts = prepare t nfkc input opts \<or>
          (\<exists>s. input = Str s \<and> prepare t nfkc input opts = Inr (normalized_of t nfkc s) \<and>
               (saslprep t nfkc input opts = Inl BidiEdgePlacement \<or>
                saslprep t nfkc input opts = Inl UndefinedCodePointAt))) \<and>
         (saslprep t nfkc input opts = Inr y \<longrightarrow> prepare t nfkc input opts = Inr y) \<and>
         (prepare t nfkc input opts = Inl e \<longrightarrow> saslprep t nfkc input opts = Inl e)"
proof (cases input)
  case (Str s)
  show ?thesis
  proof (cases "s = []")
    case True
    with Str show ?thesis by (simp add: prepare_def)
  next
    case False
    from assms have "edges_r_al t (normalized_of t nfkc s) \<Longrightarrow>
        edges_r_al_points t (normalized_of t nfkc s)"
      by (rule edges_units_imp_points)
    with Str False show ?thesis
      by (auto simp: saslprep_run prepare_Str_points Let_def dest: has_table_nonempty)
  qed
qed (simp add: prepare_def)

theorem saslprep_sound_for_prepare_witness:
  "saslprep rfc_excerpt nfkc_excerpt (Str [0xAD]) default_opts = Inl UndefinedCodePointAt \<and>
   prepare rfc_excerpt nfkc_excerpt (Str [0xAD]) default_opts = Inr []"
proof -
  have table: "\<forall>c. bidirectional_r_al rfc_excerpt c \<longrightarrow> \<not> high_surrogate c \<and> \<not> low_surrogate c"
    by (auto simp: table_fixture_defs surrogate_defs)
  from saslprep_sound_for_prepare [OF table, of nfkc_excerpt "Str [0xAD]" default_opts]
  show ?thesis
    by (simp add: saslprep_eval prepare_def)
qed

text \<open>
  C31. When the RandALCat table lies in the Basic Multilingual Plane (no surrogate value,
  no code point from \<open>0x10000\<close> on), as table D.1 of RFC 3454 does, reading code units
  instead of code points at the edges makes no difference: \<open>saslprep\<close> and \<open>prepare\<close>
  agree on every input whose normalised string is not empty.
\<close>

theorem saslprep_refines_prepare_bmp_table:
  assumes bmp: "\<forall>c. bidirectional_r_al t c \<longrightarrow> c < 0xD800 \<or> (0xDFFF < c \<and> c < 0x10000)"
    and nonempty: "normalized_of t nfkc s \<noteq> []"
  shows "saslprep t nfkc (Str s) opts = prepare t nfkc (Str s) opts"
proof (cases "s = []")
  case True
  then show ?thesis by (simp add: prepare_def)
next
  case False
  from bmp have b: "\<And>c. bidirectional_r_al t c \<Longrightarrow> c < 0xD800 \<or> (0xDFFF < c \<and> c < 0x10000)"
    by blast
  from False nonempty show ?thesis
    by (simp add: saslprep_run prepare_Str edges_r_al_def
        bmp_table_hd [of "bidirectional_r_al t", OF b]
        bmp_table_last [of "bidirectional_r_al t", OF b])
qed

theorem saslprep_refines_prepare_bmp_table_witness:
  "saslprep rfc_excerpt nfkc_excerpt (Str [0x05D0, 0xD83D, 0xDE00]) default_opts
     = Inl BidiEdgePlacement \<and>
   prepare rfc_excerpt nfkc_excerpt (Str [0x05D0, 0xD83D, 0xDE00]) default_opts
     = Inl BidiEdgePlacement"
proof -
  have "saslprep rfc_excerpt nfkc_excerpt (Str [0x05D0, 0xD83D, 0xDE00]) default_opts
      = prepare rfc_excerpt nfkc_excerpt (Str [0x05D0, 0xD83D, 0xDE00]) default_opts"
    by (rule saslprep_refines_prepare_bmp_table) (auto simp: saslprep_eval)
  then show ?thesis by (simp add: saslprep_eval)
qed

end
