(* ===== verification/Sasl_Engine.thy ===== *)
theory Sasl_Engine
  imports Sasl_Prep
begin

text \<open>
  \<open>saslprep\<close> on an engine that bounds the number of arguments of a call. Lines 81 and
  82 of \<open>index.ts\<close> pass every mapped code point as an argument of its own
  (\<open>String.fromCodePoint.apply(null, mapped_input)\<close>); ECMA-262 puts no bound on the
  length of an argument list, the engines do, and a call beyond the bound throws a
  \<open>RangeError\<close>. The bound is a parameter of the model: \<open>None\<close> is the engine of
  ECMA-262, on which \<open>saslprep_engine\<close> is \<open>saslprep\<close>.
\<close>

section \<open>The call with an argument limit\<close>

definition apply_fromCodePoint :: "nat option \<Rightarrow> code_point list \<Rightarrow> js_string result" where
  "apply_fromCodePoint argument_limit mapped_input =
     (case argument_limit of
        None \<Rightarrow> fromCodePoint mapped_input
      | Some n \<Rightarrow>
          if n < length mapped_input then Inl ArgumentLimitExceeded
          else fromCodePoint mapped_input)"

definition normalize_stage_engine ::
  "nat option \<Rightarrow> normalizer \<Rightarrow> code_point list \<Rightarrow> js_string result" where
  "normalize_stage_engine argument_limit nfkc mapped_input =
     result_bind (apply_fromCodePoint argument_limit mapped_input) (\<lambda>s. Inr (nfkc s))"

definition saslprep_engine ::
  "nat option \<Rightarrow> code_point_tables \<Rightarrow> normalizer \<Rightarrow> js_value \<Rightarrow> options \<Rightarrow> js_string result"
  where
  "saslprep_engine argument_limit t nfkc input opts =
     (case input of
        NotString \<Rightarrow> Inl InvalidInputType
      | Str s \<Rightarrow>
          if length s = 0 then Inr []
          else
            let mapped_input = map_stage t s in
            result_bind (normalize_stage_engine argument_limit nfkc mapped_input)
              (\<lambda>normalized_input.
            let normalized_map = toCodePoints normalized_input in
            result_bind (check_prohibited t normalized_map) (\<lambda>_.
            result_bind (check_unassigned t opts normalized_map) (\<lambda>_.
            result_bind (check_bidi t normalized_input normalized_map) (\<lambda>_.
            Inr normalized_input)))))"

text \<open>Whether the call of line 82 goes beyond the limit.\<close>

definition exceeds :: "nat option \<Rightarrow> code_point_tables \<Rightarrow> js_value \<Rightarrow> bool" where
  "exceeds argument_limit t input =
     (case (argument_limit, input) of
        (Some n, Str s) \<Rightarrow> n < length (map_stage t s)
      | _ \<Rightarrow> False)"

section \<open>Lemmas\<close>

lemma apply_fromCodePoint_None [simp]: "apply_fromCodePoint None cps = fromCodePoint cps"
  by (simp add: apply_fromCodePoint_def)

lemma apply_fromCodePoint_Some:
  "apply_fromCodePoint (Some n) cps =
     (if n < length cps then Inl ArgumentLimitExceeded else fromCodePoint cps)"
  by (simp add: apply_fromCodePoint_def)

lemma normalize_stage_engine_eq:
  "normalize_stage_engine argument_limit nfkc cps =
     (if (case argument_limit of None \<Rightarrow> False | Some n \<Rightarrow> n < length cps)
      then Inl ArgumentLimitExceeded else normalize_stage nfkc cps)"
  by (simp add: normalize_stage_engine_def normalize_stage_def apply_fromCodePoint_def
      split: option.splits)

lemma exceeds_simps [simp]:
  "exceeds None t input = False"
  "exceeds limit t NotString = False"
  "exceeds (Some n) t (Str s) \<longleftrightarrow> n < length (map_stage t s)"
  by (simp_all add: exceeds_def split: option.splits)

lemma exceeds_Nil [simp]: "\<not> exceeds lim t (Str [])"
  by (cases lim) simp_all

text \<open>
  The limit adds one outcome and changes no other: nothing before line 81 depends on
  it, and a call within the limit goes on as \<open>saslprep\<close> does.
\<close>

lemma saslprep_engine_eq:
  "saslprep_engine argument_limit t nfkc input opts =
     (if exceeds argument_limit t input then Inl ArgumentLimitExceeded
      else saslprep t nfkc input opts)"
proof (cases input)
  case (Str s)
  then show ?thesis
    by (cases argument_limit)
      (auto simp: saslprep_engine_def saslprep_def normalize_stage_engine_eq Let_def)
qed (simp add: saslprep_engine_def)

lemma saslprep_never_exceeds: "saslprep t nfkc input opts \<noteq> Inl ArgumentLimitExceeded"
proof (cases input)
  case (Str s)
  then show ?thesis by (cases "s = []") (simp_all add: saslprep_run)
qed simp

section \<open>The outcome under a limit\<close>

text \<open>
  C34. The argument limit of the engine. On an engine that allows at most \<open>n\<close>
  arguments, \<open>saslprep\<close> throws the \<open>RangeError\<close> of the call on line 82 exactly when the
  input is a string with more than \<open>n\<close> mapped code points; on every other call it does
  what \<open>saslprep\<close> does without a limit; and an input of at most \<open>n\<close> code units is
  never beyond the limit. The limit counts mapped code points: the second input of the
  witness has three code units and is within a limit of two.
\<close>

theorem saslprep_engine_argument_limit:
  "(saslprep_engine argument_limit t nfkc input opts = Inl ArgumentLimitExceeded \<longleftrightarrow>
      (\<exists>n s. argument_limit = Some n \<and> input = Str s \<and> n < length (map_stage t s))) \<and>
   (\<not> exceeds argument_limit t input \<longrightarrow>
      saslprep_engine argument_limit t nfkc input opts = saslprep t nfkc input opts) \<and>
   (argument_limit = Some n \<and> input = Str s \<and> length s \<le> n \<longrightarrow>
      \<not> exceeds argument_limit t input)"
proof -
  have "length s \<le> n \<Longrightarrow> \<not> n < length (map_stage t s)"
    using length_map_stage_le [of t s] by simp
  then show ?thesis
    by (cases argument_limit; cases input)
      (auto simp: saslprep_engine_eq saslprep_never_exceeds)
qed

theorem saslprep_engine_argument_limit_witness:
  "saslprep_engine (Some 2) rfc_excerpt nfkc_excerpt (Str [0x61, 0x62, 0x63]) default_opts
     = Inl ArgumentLimitExceeded \<and>
   saslprep rfc_excerpt nfkc_excerpt (Str [0x61, 0x62, 0x63]) default_opts
     = Inr [0x61, 0x62, 0x63] \<and>
   saslprep_engine (Some 2) rfc_excerpt nfkc_excerpt (Str [0x61, 0xAD, 0x62]) default_opts
     = Inr [0x61, 0x62] \<and>
   saslprep_engine (Some 2) rfc_excerpt nfkc_excerpt (Str [0x61, 0x62]) default_opts
     = Inr [0x61, 0x62]"
  using saslprep_engine_argument_limit
      [of "Some 2" rfc_excerpt nfkc_excerpt "Str [0x61, 0x62, 0x63]" default_opts 2 "[0x61, 0x62]"]
    saslprep_engine_argument_limit
      [of "Some 2" rfc_excerpt nfkc_excerpt "Str [0x61, 0xAD, 0x62]" default_opts 2 "[0x61, 0x62]"]
    saslprep_engine_argument_limit
      [of "Some 2" rfc_excerpt nfkc_excerpt "Str [0x61, 0x62]" default_opts 2 "[0x61, 0x62]"]
  by (simp add: saslprep_eval)

end
