(* ===== verification/Sasl_Machine.thy ===== *)
theory Sasl_Machine
  imports Sasl_Engine
begin

text \<open>
  The body of \<open>saslprep\<close> (lines 65 to 150 of \<open>index.ts\<close>) as a transition system: one
  control state per program point between two statements, holding the local variables
  that are live there, and one rule of \<open>step\<close> per branch of a statement. The argument
  limit of the engine (\<open>Sasl_Engine\<close>) is a parameter \<open>lim\<close> of the steps, so the rule for
  an exception on lines 81 to 83 can fire. \<open>Sasl_Prep\<close> and \<open>Sasl_Engine\<close> give the result
  of a call as a function; this theory gives the program points that the call passes
  on its way, and proves what the local variables hold at each of them (\<open>stage_inv\<close>).
  The lemma \<open>reachable_outcome\<close> shows that the run ends in the state that the function
  computes. It relates the two readings of the same lines to each other: it shows that
  the models are consistent, and is not a property of the program.
\<close>

section \<open>Control states\<close>

datatype pipeline_state =
    Called js_value
  | Checked js_string
  | Mapped "code_point list"
  | Normalized js_string
  | Decoded js_string "code_point list"
  | NotProhibited js_string "code_point list"
  | Assigned js_string "code_point list"
  | Unmixed js_string bool
  | Edges js_string bool bool bool
  | Returned js_string
  | Thrown error

text \<open>
  Lines 136 to 141: the two table lookups at the ends of \<open>normalized_input\<close>, evaluated
  in source order, each of which can raise.
\<close>

definition edge_lookups :: "code_point_tables \<Rightarrow> js_string \<Rightarrow> (bool \<times> bool) result" where
  "edge_lookups t normalized_input =
     result_bind (getCodePoint (first normalized_input)) (\<lambda>first_cp.
     result_bind (table_get (bidirectional_r_al t) first_cp) (\<lambda>isFirstBidiRAL.
     result_bind (getCodePoint (last_js normalized_input)) (\<lambda>last_cp.
     result_bind (table_get (bidirectional_r_al t) last_cp) (\<lambda>isLastBidiRAL.
     Inr (isFirstBidiRAL, isLastBidiRAL)))))"

section \<open>Steps\<close>

inductive step ::
  "nat option \<Rightarrow> code_point_tables \<Rightarrow> normalizer \<Rightarrow> options \<Rightarrow>
     pipeline_state \<Rightarrow> pipeline_state \<Rightarrow> bool"
  for lim :: "nat option" and t :: code_point_tables and nfkc :: normalizer and opts :: options
  where
  not_a_string: "step lim t nfkc opts (Called NotString) (Thrown InvalidInputType)"
| a_string: "step lim t nfkc opts (Called (Str s)) (Checked s)"
| empty_input: "length s = 0 \<Longrightarrow> step lim t nfkc opts (Checked s) (Returned [])"
| mapping: "length s \<noteq> 0 \<Longrightarrow> step lim t nfkc opts (Checked s) (Mapped (map_stage t s))"
| normalize_throws:
    "normalize_stage_engine lim nfkc mapped_input = Inl e \<Longrightarrow>
     step lim t nfkc opts (Mapped mapped_input) (Thrown e)"
| normalize:
    "normalize_stage_engine lim nfkc mapped_input = Inr normalized_input \<Longrightarrow>
     step lim t nfkc opts (Mapped mapped_input) (Normalized normalized_input)"
| decode:
    "step lim t nfkc opts (Normalized normalized_input)
       (Decoded normalized_input (toCodePoints normalized_input))"
| prohibited:
    "list_ex (prohibited_characters t) normalized_map \<Longrightarrow>
     step lim t nfkc opts (Decoded normalized_input normalized_map) (Thrown ProhibitedCharacter)"
| not_prohibited:
    "\<not> list_ex (prohibited_characters t) normalized_map \<Longrightarrow>
     step lim t nfkc opts (Decoded normalized_input normalized_map)
       (NotProhibited normalized_input normalized_map)"
| unassigned:
    "allowUnassigned opts \<noteq> Some True \<Longrightarrow>
     list_ex (unassigned_code_points t) normalized_map \<Longrightarrow>
     step lim t nfkc opts (NotProhibited normalized_input normalized_map)
       (Thrown UnassignedCodePoint)"
| unassigned_skipped:
    "allowUnassigned opts = Some True \<Longrightarrow>
     step lim t nfkc opts (NotProhibited normalized_input normalized_map)
       (Assigned normalized_input normalized_map)"
| assigned:
    "allowUnassigned opts \<noteq> Some True \<Longrightarrow>
     \<not> list_ex (unassigned_code_points t) normalized_map \<Longrightarrow>
     step lim t nfkc opts (NotProhibited normalized_input normalized_map)
       (Assigned normalized_input normalized_map)"
| mixed:
    "list_ex (bidirectional_r_al t) normalized_map \<Longrightarrow>
     list_ex (bidirectional_l t) normalized_map \<Longrightarrow>
     step lim t nfkc opts (Assigned normalized_input normalized_map) (Thrown BidiMixedDirection)"
| unmixed:
    "\<not> (list_ex (bidirectional_r_al t) normalized_map \<and>
        list_ex (bidirectional_l t) normalized_map) \<Longrightarrow>
     step lim t nfkc opts (Assigned normalized_input normalized_map)
       (Unmixed normalized_input (list_ex (bidirectional_r_al t) normalized_map))"
| edges_throw:
    "edge_lookups t normalized_input = Inl e \<Longrightarrow>
     step lim t nfkc opts (Unmixed normalized_input hasBidiRAL) (Thrown e)"
| edges:
    "edge_lookups t normalized_input = Inr (isFirstBidiRAL, isLastBidiRAL) \<Longrightarrow>
     step lim t nfkc opts (Unmixed normalized_input hasBidiRAL)
       (Edges normalized_input hasBidiRAL isFirstBidiRAL isLastBidiRAL)"
| edge_placement:
    "hasBidiRAL \<and> \<not> (isFirstBidiRAL \<and> isLastBidiRAL) \<Longrightarrow>
     step lim t nfkc opts (Edges normalized_input hasBidiRAL isFirstBidiRAL isLastBidiRAL)
       (Thrown BidiEdgePlacement)"
| return:
    "\<not> (hasBidiRAL \<and> \<not> (isFirstBidiRAL \<and> isLastBidiRAL)) \<Longrightarrow>
     step lim t nfkc opts (Edges normalized_input hasBidiRAL isFirstBidiRAL isLastBidiRAL)
       (Returned normalized_input)"

code_pred step .

inductive reachable ::
  "nat option \<Rightarrow> code_point_tables \<Rightarrow> normalizer \<Rightarrow> options \<Rightarrow> js_value \<Rightarrow>
     pipeline_state \<Rightarrow> bool"
  for lim :: "nat option" and t :: code_point_tables and nfkc :: normalizer and opts :: options
    and input :: js_value
  where
  call: "reachable lim t nfkc opts input (Called input)"
| run: "reachable lim t nfkc opts input st \<Longrightarrow> step lim t nfkc opts st st' \<Longrightarrow>
     reachable lim t nfkc opts input st'"

fun final :: "pipeline_state \<Rightarrow> bool" where
  "final (Returned y) = True"
| "final (Thrown e) = True"
| "final st = False"

fun outcome :: "js_string result \<Rightarrow> pipeline_state" where
  "outcome (Inl e) = Thrown e"
| "outcome (Inr y) = Returned y"

text \<open>The number of steps that a state is away from the end of the longest run.\<close>

fun stage_rank :: "pipeline_state \<Rightarrow> nat" where
  "stage_rank (Called v) = 9"
| "stage_rank (Checked s) = 8"
| "stage_rank (Mapped m) = 7"
| "stage_rank (Normalized y) = 6"
| "stage_rank (Decoded y m) = 5"
| "stage_rank (NotProhibited y m) = 4"
| "stage_rank (Assigned y m) = 3"
| "stage_rank (Unmixed y h) = 2"
| "stage_rank (Edges y h f l) = 1"
| "stage_rank (Returned y) = 0"
| "stage_rank (Thrown e) = 0"

text \<open>
  What holds of the local variables at each program point of a call on \<open>input\<close>: the
  string is the normalised mapping of the input, the array is its decoding, and the
  checks passed so far hold of it. A final state is the result of \<open>saslprep_engine\<close>.
\<close>

definition from_input ::
  "nat option \<Rightarrow> code_point_tables \<Rightarrow> normalizer \<Rightarrow> js_value \<Rightarrow> js_string \<Rightarrow> bool" where
  "from_input lim t nfkc input y =
     (case input of
        NotString \<Rightarrow> False
      | Str s \<Rightarrow> s \<noteq> [] \<and> \<not> exceeds lim t input \<and> y = normalized_of t nfkc s)"

fun stage_inv ::
  "nat option \<Rightarrow> code_point_tables \<Rightarrow> normalizer \<Rightarrow> options \<Rightarrow> js_value \<Rightarrow>
     pipeline_state \<Rightarrow> bool" where
  "stage_inv lim t nfkc opts input (Called v) \<longleftrightarrow> v = input"
| "stage_inv lim t nfkc opts input (Checked s) \<longleftrightarrow> input = Str s"
| "stage_inv lim t nfkc opts input (Mapped m) \<longleftrightarrow>
     (case input of NotString \<Rightarrow> False | Str s \<Rightarrow> s \<noteq> [] \<and> m = map_stage t s)"
| "stage_inv lim t nfkc opts input (Normalized y) \<longleftrightarrow> from_input lim t nfkc input y"
| "stage_inv lim t nfkc opts input (Decoded y m) \<longleftrightarrow>
     from_input lim t nfkc input y \<and> m = toCodePoints y"
| "stage_inv lim t nfkc opts input (NotProhibited y m) \<longleftrightarrow>
     from_input lim t nfkc input y \<and> m = toCodePoints y \<and>
     \<not> has_table (prohibited_characters t) y"
| "stage_inv lim t nfkc opts input (Assigned y m) \<longleftrightarrow>
     from_input lim t nfkc input y \<and> m = toCodePoints y \<and>
     \<not> has_table (prohibited_characters t) y \<and> \<not> unassigned_rejected t opts y"
| "stage_inv lim t nfkc opts input (Unmixed y h) \<longleftrightarrow>
     from_input lim t nfkc input y \<and> h = has_table (bidirectional_r_al t) y \<and>
     \<not> has_table (prohibited_characters t) y \<and> \<not> unassigned_rejected t opts y \<and>
     \<not> bidi_mixed t y"
| "stage_inv lim t nfkc opts input (Edges y h f l) \<longleftrightarrow>
     from_input lim t nfkc input y \<and> h = has_table (bidirectional_r_al t) y \<and>
     \<not> has_table (prohibited_characters t) y \<and> \<not> unassigned_rejected t opts y \<and>
     \<not> bidi_mixed t y \<and> y \<noteq> [] \<and>
     f = bidirectional_r_al t (unat (hd y)) \<and> l = bidirectional_r_al t (unat (last y))"
| "stage_inv lim t nfkc opts input (Returned y) \<longleftrightarrow> saslprep_engine lim t nfkc input opts = Inr y"
| "stage_inv lim t nfkc opts input (Thrown e) \<longleftrightarrow> saslprep_engine lim t nfkc input opts = Inl e"

section \<open>Inversion and the shape of steps\<close>

inductive_cases step_CalledE [elim!]: "step lim t nfkc opts (Called v) st"
inductive_cases step_CheckedE [elim!]: "step lim t nfkc opts (Checked s) st"
inductive_cases step_MappedE [elim!]: "step lim t nfkc opts (Mapped m) st"
inductive_cases step_NormalizedE [elim!]: "step lim t nfkc opts (Normalized y) st"
inductive_cases step_DecodedE [elim!]: "step lim t nfkc opts (Decoded y m) st"
inductive_cases step_NotProhibitedE [elim!]: "step lim t nfkc opts (NotProhibited y m) st"
inductive_cases step_AssignedE [elim!]: "step lim t nfkc opts (Assigned y m) st"
inductive_cases step_UnmixedE [elim!]: "step lim t nfkc opts (Unmixed y h) st"
inductive_cases step_EdgesE [elim!]: "step lim t nfkc opts (Edges y h f l) st"
inductive_cases step_ReturnedE [elim!]: "step lim t nfkc opts (Returned y) st"
inductive_cases step_ThrownE [elim!]: "step lim t nfkc opts (Thrown e) st"

lemma edge_lookups_Nil [simp]: "edge_lookups t [] = Inl UndefinedCodePointAt"
  by (simp add: edge_lookups_def)

lemma edge_lookups_nonempty:
  "y \<noteq> [] \<Longrightarrow>
   edge_lookups t y =
     Inr (bidirectional_r_al t (unat (hd y)), bidirectional_r_al t (unat (last y)))"
  by (simp add: edge_lookups_def getCodePoint_first getCodePoint_last_js)

lemma edge_lookups_eq_Inr_iff:
  "edge_lookups t y = Inr (f, l) \<longleftrightarrow>
     y \<noteq> [] \<and> f = bidirectional_r_al t (unat (hd y)) \<and> l = bidirectional_r_al t (unat (last y))"
  by (cases "y = []") (auto simp: edge_lookups_nonempty)

lemma edge_lookups_eq_Inl_iff:
  "edge_lookups t y = Inl e \<longleftrightarrow> y = [] \<and> e = UndefinedCodePointAt"
  by (cases "y = []") (auto simp: edge_lookups_nonempty)

lemma check_bidi_edge_lookups:
  "check_bidi t y m =
     (if list_ex (bidirectional_r_al t) m \<and> list_ex (bidirectional_l t) m
      then Inl BidiMixedDirection
      else result_bind (edge_lookups t y) (\<lambda>(f, l).
        if list_ex (bidirectional_r_al t) m \<and> \<not> (f \<and> l) then Inl BidiEdgePlacement
        else Inr ()))"
  by (cases "y = []") (simp_all add: check_bidi_Nil check_bidi_nonempty edge_lookups_nonempty)

lemma step_deterministic:
  "step lim t nfkc opts st a \<Longrightarrow> step lim t nfkc opts st b \<Longrightarrow> a = b"
  by (induction rule: step.induct) auto

lemma final_no_step: "final st \<Longrightarrow> \<not> step lim t nfkc opts st st'"
  by (cases st) auto

lemma step_progress: "\<not> final st \<Longrightarrow> \<exists>st'. step lim t nfkc opts st st'"
proof (cases st)
  case (Called v)
  then show ?thesis by (cases v) (auto intro: step.intros)
next
  case (Mapped m)
  then show ?thesis by (cases "normalize_stage_engine lim nfkc m") (auto intro: step.intros)
next
  case (NotProhibited y m)
  then show ?thesis
    by (cases "allowUnassigned opts = Some True"; cases "list_ex (unassigned_code_points t) m")
      (auto intro: step.intros)
next
  case (Unmixed y h)
  then show ?thesis by (cases "edge_lookups t y") (auto intro: step.intros)
qed (auto intro: step.intros)

lemma step_rank: "step lim t nfkc opts st st' \<Longrightarrow> stage_rank st' < stage_rank st"
  by (induction rule: step.induct) simp_all

section \<open>Every step keeps the invariant\<close>

lemma from_input_Str:
  "from_input lim t nfkc (Str s) y \<longleftrightarrow>
     s \<noteq> [] \<and> \<not> exceeds lim t (Str s) \<and> y = normalized_of t nfkc s"
  by (simp add: from_input_def)

lemma from_inputE:
  assumes "from_input lim t nfkc input y"
  obtains s where "input = Str s" and "s \<noteq> []" and "\<not> exceeds lim t (Str s)"
    and "y = normalized_of t nfkc s"
  using assms by (cases input) (auto simp: from_input_def)

lemma normalize_stage_engine_map_stage:
  "normalize_stage_engine lim nfkc (map_stage t s) =
     (if exceeds lim t (Str s) then Inl ArgumentLimitExceeded
      else Inr (normalized_of t nfkc s))"
  by (cases lim) (simp_all add: normalize_stage_engine_eq normalize_stage_map_stage)

lemmas engine_run = saslprep_engine_eq saslprep_run

lemma step_stage_inv:
  assumes "step lim t nfkc opts st st'" and "stage_inv lim t nfkc opts input st"
  shows "stage_inv lim t nfkc opts input st'"
  using assms
proof (induction rule: step.induct)
  case (normalize_throws mapped_input e)
  then show ?case
    by (auto simp: normalize_stage_engine_map_stage saslprep_engine_eq
        split: js_value.splits if_splits)
next
  case (normalize mapped_input normalized_input)
  then show ?case
    by (auto simp: normalize_stage_engine_map_stage from_input_def
        split: js_value.splits if_splits)
next
  case (edges_throw normalized_input e hasBidiRAL)
  then show ?case
    by (auto simp: edge_lookups_eq_Inl_iff engine_run elim!: from_inputE)
next
  case (edges normalized_input isFirstBidiRAL isLastBidiRAL hasBidiRAL)
  then show ?case by (simp add: edge_lookups_eq_Inr_iff)
next
  case (edge_placement hasBidiRAL isFirstBidiRAL isLastBidiRAL normalized_input)
  then show ?case
    by (auto simp: engine_run edges_r_al_def elim!: from_inputE)
next
  case (return hasBidiRAL isFirstBidiRAL isLastBidiRAL normalized_input)
  then show ?case
    by (auto simp: engine_run edges_r_al_def elim!: from_inputE)
qed (auto simp: engine_run from_input_def outcome_defs elim!: from_inputE
      split: js_value.splits)

section \<open>Runs\<close>

lemma final_stage_inv:
  "final st \<Longrightarrow> stage_inv lim t nfkc opts input st \<longleftrightarrow> st = outcome (saslprep_engine lim t nfkc input opts)"
  by (cases st; cases "saslprep_engine lim t nfkc input opts") auto

text \<open>
  Progress and preservation together: from a state that satisfies the invariant, the
  run goes on until it is in the final state that \<open>saslprep_engine\<close> computes.
\<close>

lemma stage_inv_reaches_outcome:
  "reachable lim t nfkc opts input st \<Longrightarrow> stage_inv lim t nfkc opts input st \<Longrightarrow>
   reachable lim t nfkc opts input (outcome (saslprep_engine lim t nfkc input opts))"
proof (induction "stage_rank st" arbitrary: st rule: less_induct)
  case less
  show ?case
  proof (cases "final st")
    case True
    with less.prems show ?thesis by (simp add: final_stage_inv)
  next
    case False
    then obtain st' where st': "step lim t nfkc opts st st'"
      using step_progress by blast
    from less.prems(1) st' have "reachable lim t nfkc opts input st'"
      by (rule reachable.run)
    moreover from st' less.prems(2) have "stage_inv lim t nfkc opts input st'"
      by (rule step_stage_inv)
    ultimately show ?thesis
      using st' by (intro less.hyps step_rank)
  qed
qed

lemma reachable_outcome:
  "reachable lim t nfkc opts input (outcome (saslprep_engine lim t nfkc input opts))"
  by (rule stage_inv_reaches_outcome [OF reachable.call]) simp

lemma reachable_Decoded:
  assumes "s \<noteq> []" and "\<not> exceeds lim t (Str s)"
  shows "reachable lim t nfkc opts (Str s)
           (Decoded (normalized_of t nfkc s) (toCodePoints (normalized_of t nfkc s)))"
proof -
  have "reachable lim t nfkc opts (Str s) (Checked s)"
    by (rule reachable.run [OF reachable.call step.a_string])
  then have "reachable lim t nfkc opts (Str s) (Mapped (map_stage t s))"
    by (rule reachable.run) (simp add: step.mapping assms)
  then have "reachable lim t nfkc opts (Str s) (Normalized (normalized_of t nfkc s))"
    by (rule reachable.run) (simp add: step.normalize normalize_stage_engine_map_stage assms)
  then show ?thesis
    by (rule reachable.run) (rule step.decode)
qed

section \<open>Properties of the runs\<close>

text \<open>
  C38. Every state that a call of \<open>saslprep\<close> on \<open>input\<close> passes through satisfies
  \<open>stage_inv\<close>: at every program point after line 85 the call on line 82 was within the
  argument limit of the engine, \<open>normalized_input\<close> is the normalised mapping of the input
  and \<open>normalized_map\<close> is its decoding, the checks already passed hold of it, and a
  state that returns or throws holds the result of the function \<open>saslprep_engine\<close>.
\<close>

theorem reachable_stage_inv:
  assumes "reachable lim t nfkc opts input st"
  shows "stage_inv lim t nfkc opts input st"
  using assms by (induction rule: reachable.induct) (auto intro: step_stage_inv)

theorem reachable_stage_inv_witness:
  "stage_inv (Some 2) rfc_excerpt nfkc_excerpt default_opts (Str [0x2168])
     (Decoded [0x0049, 0x0058] [0x49, 0x58])"
  using reachable_stage_inv
    [OF reachable_Decoded [of "[0x2168]" "Some 2" rfc_excerpt nfkc_excerpt default_opts]]
  by (simp add: saslprep_eval from_input_def)

end
