(* ===== verification/Sasl_Errors.thy ===== *)
theory Sasl_Errors
  imports Sasl_Engine "HOL-Library.Product_Lexorder"
begin

text \<open>
  The order in which a call of \<open>saslprep\<close> can throw. The exceptions are ordered by the
  place in the source at which they are raised, which makes \<open>error\<close> a linear order;
  the checks that an input fails are then a sorted list, and what the call throws is
  its first element.
\<close>

section \<open>Exceptions in source order\<close>

fun throw_order :: "error \<Rightarrow> nat" where
  "throw_order InvalidInputType = 0"
| "throw_order ArgumentLimitExceeded = 1"
| "throw_order (InvalidCodePoint c) = 2"
| "throw_order ProhibitedCharacter = 3"
| "throw_order UnassignedCodePoint = 4"
| "throw_order BidiMixedDirection = 5"
| "throw_order UndefinedCodePointAt = 6"
| "throw_order UndefinedTableLookup = 7"
| "throw_order BidiEdgePlacement = 8"

fun throw_argument :: "error \<Rightarrow> nat" where
  "throw_argument (InvalidCodePoint c) = c"
| "throw_argument e = 0"

definition throw_key :: "error \<Rightarrow> nat \<times> nat" where
  "throw_key e = (throw_order e, throw_argument e)"

instantiation error :: linorder
begin

definition less_eq_error :: "error \<Rightarrow> error \<Rightarrow> bool" where
  "e \<le> f \<longleftrightarrow> throw_key e \<le> throw_key f"

definition less_error :: "error \<Rightarrow> error \<Rightarrow> bool" where
  "e < f \<longleftrightarrow> throw_key e < throw_key f"

instance
proof
  fix e f g :: error
  have inj: "throw_key a = throw_key b \<Longrightarrow> a = b" for a b
    by (cases a; cases b) (simp_all add: throw_key_def)
  show "e < f \<longleftrightarrow> e \<le> f \<and> \<not> f \<le> e"
    by (auto simp: less_eq_error_def less_error_def)
  show "e \<le> e"
    by (simp add: less_eq_error_def)
  show "e \<le> f \<Longrightarrow> f \<le> g \<Longrightarrow> e \<le> g"
    by (auto simp: less_eq_error_def)
  show "e \<le> f \<Longrightarrow> f \<le> e \<Longrightarrow> e = f"
    by (auto simp: less_eq_error_def intro: inj)
  show "e \<le> f \<or> f \<le> e"
    by (auto simp: less_eq_error_def)
qed

end

section \<open>The checks that an input fails\<close>

fun violated ::
  "nat option \<Rightarrow> code_point_tables \<Rightarrow> normalizer \<Rightarrow> options \<Rightarrow> js_string \<Rightarrow> error \<Rightarrow> bool"
  where
  "violated lim t nfkc opts s ArgumentLimitExceeded \<longleftrightarrow> exceeds lim t (Str s)"
| "violated lim t nfkc opts s ProhibitedCharacter \<longleftrightarrow>
     has_table (prohibited_characters t) (normalized_of t nfkc s)"
| "violated lim t nfkc opts s UnassignedCodePoint \<longleftrightarrow>
     unassigned_rejected t opts (normalized_of t nfkc s)"
| "violated lim t nfkc opts s BidiMixedDirection \<longleftrightarrow> bidi_mixed t (normalized_of t nfkc s)"
| "violated lim t nfkc opts s UndefinedCodePointAt \<longleftrightarrow> normalized_of t nfkc s = []"
| "violated lim t nfkc opts s BidiEdgePlacement \<longleftrightarrow>
     has_table (bidirectional_r_al t) (normalized_of t nfkc s) \<and>
     \<not> edges_r_al t (normalized_of t nfkc s)"
| "violated lim t nfkc opts s e \<longleftrightarrow> False"

definition violations ::
  "nat option \<Rightarrow> code_point_tables \<Rightarrow> normalizer \<Rightarrow> options \<Rightarrow> js_string \<Rightarrow> error list" where
  "violations lim t nfkc opts s =
     filter (violated lim t nfkc opts s)
       [ArgumentLimitExceeded, ProhibitedCharacter, UnassignedCodePoint, BidiMixedDirection,
        UndefinedCodePointAt, BidiEdgePlacement]"

section \<open>Lemmas\<close>

lemma sorted_violations: "sorted (violations lim t nfkc opts s)"
  unfolding violations_def
  by (rule sorted_wrt_filter) (simp add: less_eq_error_def throw_key_def)

lemma distinct_violations: "distinct (violations lim t nfkc opts s)"
  by (simp add: violations_def)

lemma saslprep_engine_violations:
  assumes "s \<noteq> []"
  shows "saslprep_engine lim t nfkc (Str s) opts =
     (case violations lim t nfkc opts s of
        [] \<Rightarrow> Inr (normalized_of t nfkc s)
      | e # _ \<Rightarrow> Inl e)"
  using assms has_table_nonempty [of _ "normalized_of t nfkc s"]
  by (auto simp: violations_def saslprep_engine_eq saslprep_run bidi_mixed_def)

section \<open>Precedence\<close>

text \<open>
  C27. What a call throws is the first check that its input fails. For a non-empty
  input, the checks that fail (the argument limit, prohibited, unassigned, mixed
  direction, the empty normalised string, edge placement), listed by \<open>violations\<close>, are
  sorted in the order of the source; the call returns the normalised string when the
  list is empty and throws the least exception of the list otherwise, whatever else
  the input fails. The input of the witness fails four checks and throws the first.
\<close>

theorem saslprep_throws_first_violation:
  assumes "s \<noteq> []"
  shows "sorted (violations lim t nfkc opts s) \<and> distinct (violations lim t nfkc opts s) \<and>
     saslprep_engine lim t nfkc (Str s) opts =
       (if violations lim t nfkc opts s = [] then Inr (normalized_of t nfkc s)
        else Inl (Min (set (violations lim t nfkc opts s))))"
proof (cases "violations lim t nfkc opts s")
  case Nil
  with assms show ?thesis
    by (simp add: saslprep_engine_violations)
next
  case (Cons e es)
  with sorted_violations [of lim t nfkc opts s]
  have "Min (set (violations lim t nfkc opts s)) = e"
    by (auto intro!: Min_eqI)
  with Cons assms sorted_violations [of lim t nfkc opts s]
    distinct_violations [of lim t nfkc opts s]
  show ?thesis by (simp add: saslprep_engine_violations)
qed

theorem saslprep_throws_first_violation_witness:
  "violations None rfc_excerpt nfkc_excerpt default_opts [0x07, 0x0221, 0x0627, 0x61]
     = [ProhibitedCharacter, UnassignedCodePoint, BidiMixedDirection, BidiEdgePlacement] \<and>
   saslprep rfc_excerpt nfkc_excerpt (Str [0x07, 0x0221, 0x0627, 0x61]) default_opts
     = Inl ProhibitedCharacter"
proof -
  have v: "violations None rfc_excerpt nfkc_excerpt default_opts [0x07, 0x0221, 0x0627, 0x61]
      = [ProhibitedCharacter, UnassignedCodePoint, BidiMixedDirection, BidiEdgePlacement]"
    by (simp add: violations_def saslprep_eval)
  with saslprep_throws_first_violation
    [of "[0x07, 0x0221, 0x0627, 0x61]" None rfc_excerpt nfkc_excerpt default_opts]
  show ?thesis
    by (simp add: saslprep_engine_eq less_eq_error_def throw_key_def min_def)
qed

end
