(* ===== verification/Spec2Isabelle.thy ===== *)
theory Spec2Isabelle
  imports Sasl_Prelude Js_String Code_Points Sasl_Tables Sasl_Normalizer Sasl_Prep Sasl_Spec
    Sasl_Engine Sasl_Machine Sasl_Errors
begin

text \<open>
  Verification development for the package \<open>saslprep\<close>
  (\<open>src/packages/saslprep/src/index.ts\<close>): the SASLprep profile of stringprep (RFC 4013
  over RFC 3454), which canonicalises user names and passwords before they are compared.

  \<^bold>\<open>The program.\<close> One file with two functions and three one-line helpers.
  \<^item> \<open>toCodePoints\<close> (lines 13 to 34) decodes a JavaScript string, a sequence of 16-bit
    code units, into code points: a \<open>for\<close> loop with one unit of look-ahead that joins a
    high surrogate and the low surrogate after it.
  \<^item> \<open>saslprep\<close> (lines 39 to 151) is the pipeline: type test, empty-input return,
    mapping (non-ASCII spaces to U+0020, then commonly-mapped-to-nothing dropped),
    \<open>String.fromCodePoint\<close> and NFKC normalisation, a second decoding, then the
    prohibited, unassigned and bidirectional checks, each of which throws.
  \<^item> \<open>getCodePoint\<close>, \<open>first\<close>, \<open>last\<close> (lines 4 to 6) serve the bidirectional edge test.
  \<^item> Lines 153 to 155 export \<open>saslprep\<close>, with itself as its properties \<open>saslprep\<close> and
    \<open>default\<close>.
  The program calls three things that are not in the repository: the six classification
  tables (\<open>createMemoryCodePoints\<close>), of which it uses only \<open>get\<close>; the built-in string
  operations \<open>charCodeAt\<close>, \<open>codePointAt\<close>, \<open>String.fromCodePoint\<close>; and
  \<open>String.prototype.normalize('NFKC')\<close>. It keeps no state between calls.

  \<^bold>\<open>The theories.\<close>
  \<^item> \<open>Sasl_Prelude\<close>: the types (\<open>code_unit\<close> is \<open>16 word\<close>, \<open>js_string\<close> a list of them,
    \<open>code_point\<close> is \<open>nat\<close>), the datatype \<open>error\<close> of everything a run can throw,
    \<open>result_bind\<close> for the propagation of a throw, the fact collections \<open>sasl_defs\<close> and
    \<open>utf16_bounds\<close>, and the shared lemmas on code units, ranges and lists.
  \<^item> \<open>Js_String\<close>: the built-in operations, modelled from ECMA-262 (\<open>charCodeAt\<close>,
    \<open>codePointAt\<close>, \<open>UTF16EncodeCodePoint\<close>, \<open>fromCodePoint\<close>), and the helpers of the
    source (\<open>first\<close>, \<open>last_js\<close> for \<open>last\<close>, \<open>getCodePoint\<close>), with \<open>undefined\<close> as \<open>None\<close>.
  \<^item> \<open>Code_Points\<close>: \<open>toCodePoints\<close> as the source writes it. The record \<open>decoder_state\<close>
    holds the loop variable \<open>i\<close> (\<open>pos\<close>) and the array \<open>codepoints\<close>;
    \<open>toCodePoints_body\<close> is one iteration with its increment, \<open>toCodePoints_loop\<close> iterates
    it while \<open>i < size\<close> (a \<open>function\<close> whose termination is proved with the measure
    \<open>size - i\<close>), \<open>toCodePoints\<close> runs it from \<open>i = 0\<close>. Beside it stands the reference
    decoder \<open>decode\<close>, the left-to-right scan of section 4.1 of the specification. The
    lemmas show that the loop computes the scan (\<open>toCodePoints_eq_decode\<close>) and derive
    from the scan: the loop invariant, termination as a \<open>while\<close> loop, the range and
    the number of the code points, both round trips with \<open>String.fromCodePoint\<close> (the
    second in general: decoding an encoded list gives \<open>fuse\<close> of the list, which joins
    adjacent surrogate values), injectivity, and the characterisation of well-formed
    strings, and decoding a concatenation (\<open>straddles\<close> says when a pair is formed at
    the seam). The lemmas on the iterates of the body (\<open>toCodePoints_body_funpow\<close>) count
    the iterations: the \<open>k\<close>-th iterate holds the first \<open>k\<close> code points, and the loop
    leaves after as many iterations as the result has code points.
  \<^item> \<open>Sasl_Tables\<close>: the parameters of \<open>saslprep\<close>: the record \<open>code_point_tables\<close> of six
    membership predicates, the record \<open>options\<close> with the optional \<open>allowUnassigned\<close>,
    \<open>js_value\<close> for the run-time type test, \<open>table_get\<close>. \<open>fixed_by_mapping\<close> and
    \<open>dropped_by_mapping\<close> say what the two mapping tables do to one code point;
    \<open>surrogates_prohibited\<close> and \<open>supplementary_fixed\<close> are two properties of the tables
    of RFC 3454 from which well-formedness of the result and idempotence on every input
    follow. The fixture \<open>rfc_excerpt\<close>, an excerpt of those tables at which theorems are
    instantiated, is proved to have both.
  \<^item> \<open>Sasl_Normalizer\<close>: the normalisation primitive as the pipeline sees it. The type
    \<open>normalizer\<close> is a function on strings; the predicates \<open>nfkc_idempotent\<close>,
    \<open>nfkc_nonempty\<close> and \<open>nfkc_keeps_fixed\<close> are its contract (idempotent; empty only
    on the empty string; no code point that the mapping would drop or replace is
    introduced). The fixture \<open>nfkc_excerpt\<close> is proved to satisfy the contract.
  \<^item> \<open>Sasl_Prep\<close>: the pipeline, one definition per stage in source order
    (\<open>map_stage\<close>, \<open>normalize_stage\<close>, \<open>check_prohibited\<close>, \<open>check_unassigned\<close>,
    \<open>check_bidi\<close>) composed by \<open>saslprep\<close>. The lemma \<open>saslprep_Str\<close> turns a run into one
    decision list over the normalised string; the theorems give, for the success and for
    every error, the exact condition under which a run ends that way, show which
    exceptions cannot occur, and state what the mapping and \<open>allowUnassigned\<close> do, in
    the mapped intermediate and, under the contract of the normaliser, in the result.
    \<open>exports\<close> is the record of the three entry points of lines 153 to 155.
  \<^item> \<open>Sasl_Spec\<close>: \<open>prepare\<close>, the function that section 4.2 of the specification
    describes, the proof that \<open>saslprep\<close> implements it when the normalised string is
    not empty and has no surrogate at either end, or is not empty and the RandALCat
    table lies in the Basic Multilingual Plane; the exact condition under which the
    code and the specification differ (the normalised string is empty, or the edge test
    on code units and the edge test on code points, \<open>edges_r_al_points\<close>, disagree); and
    the proof that the code is sound for the specification when the RandALCat table
    holds no surrogate value: where they differ, \<open>prepare\<close> returns and \<open>saslprep\<close> throws.
  \<^item> \<open>Sasl_Engine\<close>: \<open>saslprep\<close> on an engine that bounds the number of arguments of a
    call. \<open>apply_fromCodePoint\<close> is the call \<open>String.fromCodePoint.apply(null,
    mapped_input)\<close> of line 82 with the bound as a parameter (\<open>None\<close> for no bound),
    \<open>normalize_stage_engine\<close> and \<open>saslprep_engine\<close> are the stage and the pipeline with
    that call. The lemma \<open>saslprep_engine_eq\<close> shows that the bound adds the outcome
    \<open>ArgumentLimitExceeded\<close> and changes no other.
  \<^item> \<open>Sasl_Errors\<close>: the exceptions in the order in which the source can raise them.
    \<open>throw_order\<close> numbers them by their place in the source, which makes \<open>error\<close> an
    instance of \<open>linorder\<close>; \<open>violations\<close> lists the checks that an input fails, and the
    theorem says that a call throws the least of them.
  \<^item> \<open>Sasl_Machine\<close>: the body of \<open>saslprep\<close> once more, as a transition system. A
    \<open>pipeline_state\<close> is a program point between two statements with the local variables
    that are live there (\<open>Mapped mapped_input\<close>, \<open>Decoded normalized_input
    normalized_map\<close>, \<open>Edges normalized_input hasBidiRAL isFirstBidiRAL isLastBidiRAL\<close>,
    and so on, with \<open>Returned\<close> and \<open>Thrown\<close> at the end); the inductive relation \<open>step\<close>
    has one rule per branch of each statement, its premise the condition of the branch,
    and the argument limit of the engine as a parameter.
    The lemmas are inversion rules for every state, determinism, progress (a state that
    is not final has a step), the rank that every step lowers, and preservation of
    \<open>stage_inv\<close>, which says what the local variables hold at each point. From them:
    every reachable state satisfies the invariant. The lemma \<open>reachable_outcome\<close> (the
    run reaches the state that \<open>saslprep_engine\<close> computes) relates this reading of the
    body to the functional one; it shows that the two models agree and says nothing
    of the program beyond what the theorems on \<open>saslprep\<close> say.
  \<^item> This theory: idempotence (from hypotheses on the result, and from the interface of
    the normaliser, for well-formed inputs and for every input when the mapping tables
    lie in the Basic Multilingual Plane), the pass-through of plain strings, and the
    examples of RFC 4013, which need the decoder's round trip and the pipeline together.

  \<^bold>\<open>Modelling decisions.\<close>
  \<^item> Code units are \<open>16 word\<close>, so every bound on a unit is a fact of the type; code
    points are \<open>nat\<close>. The only subtractions of the source are guarded by the
    comparisons before them, so truncated subtraction never differs from JavaScript's.
  \<^item> Exceptions are values of \<open>error\<close>. Five are the \<open>throw\<close> statements of the source;
    four are raised by the runtime inside expressions (\<open>UndefinedCodePointAt\<close>,
    \<open>UndefinedTableLookup\<close>, \<open>InvalidCodePoint\<close>, \<open>ArgumentLimitExceeded\<close>); the second and
    the third are proved unreachable, the last is reachable only under an argument limit.
  \<^item> The argument limit is a property of the engine and not of the program, so it is a
    parameter (\<open>nat option\<close>) and no theorem depends on its value. \<open>saslprep\<close> is the
    program on the engine that ECMA-262 describes, which has no limit; every theorem
    about \<open>saslprep\<close> is a theorem about \<open>saslprep_engine\<close> for the calls within the limit.
  \<^item> The tables and the normaliser are parameters: every theorem holds for all tables
    and all normalisers, and theorems about NFKC-dependent behaviour state what they
    need of the normaliser as a hypothesis, on the string at hand or as a predicate of
    the contract in \<open>Sasl_Normalizer\<close>. No fuel is used: the only loop is total, and
    the body of \<open>saslprep\<close> has no loop (\<open>stage_rank\<close>, which every step lowers, is the
    measure of the induction along a run).
  \<^item> \<open>charCodeAt\<close> is read with \<open>!\<close>; the loop calls it only under \<open>i < size\<close> and
    \<open>size > i + 1\<close>, where JavaScript does not return \<open>NaN\<close>.

  \<^bold>\<open>Not modelled.\<close> The construction of the tables from the Unicode data and the NFKC
  algorithm: both are outside the repository, the specification names them external
  collaborators, and a model of either would be a model of the Unicode data files and
  not of this program. The tables are a record of six predicates and the normaliser a
  function with a contract, both parameters, and nothing of the program that is left
  depends on more than that. That NFKC itself satisfies the contract is not proved
  here. Also not modelled: the value of the argument limit of a given engine,
  which depends on its version and its stack size; the module system that resolves an
  import to one of the exported entry points; calls that the declared types exclude
  and the body does not test for (\<open>opts\<close> equal to \<open>null\<close>, which throws on line 99; a
  tables argument that is \<open>undefined\<close> or lacks a table, which throws at the
  destructuring or at the first \<open>get\<close>); \<open>first\<close> and \<open>last\<close> on arrays, which the
  program never calls; the \<open>NaN\<close> of \<open>charCodeAt\<close> outside the string, which the guards
  of the loop exclude.
  Every statement of the source file is modelled; the lines that the definitions do
  not cover are the type import on line 1, comments and blank lines.
\<close>

section \<open>Properties that span the decoder and the pipeline\<close>

text \<open>
  C4. Idempotence. If \<open>saslprep\<close> returns \<open>y\<close>, then \<open>saslprep\<close> of \<open>y\<close> returns \<open>y\<close>,
  provided the normaliser leaves \<open>y\<close> alone and \<open>y\<close> has no code point of the
  non-ASCII-space or mapped-to-nothing table; without the two provisos the mapping or the
  normaliser could still change \<open>y\<close>. The second run re-encodes the decoded \<open>y\<close>, which
  is \<open>y\<close> by the round trip of the decoder.
\<close>

theorem saslprep_idempotent:
  assumes run: "saslprep t nfkc (Str x) opts = Inr y"
    and stable: "nfkc y = y"
    and clean: "\<forall>c \<in> set (toCodePoints y).
                  \<not> non_ASCII_space_characters t c \<and> \<not> commonly_mapped_to_nothing t c"
  shows "saslprep t nfkc (Str y) opts = Inr y"
proof -
  from clean stable have "normalized_of t nfkc y = y"
    by (simp add: normalized_of_untouched)
  with run show ?thesis by (rule saslprep_fixed_point)
qed

theorem saslprep_idempotent_witness:
  "saslprep rfc_excerpt nfkc_excerpt (Str [0x49, 0xAD, 0x58]) default_opts = Inr [0x49, 0x58] \<and>
   saslprep rfc_excerpt nfkc_excerpt (Str [0x49, 0x58]) default_opts = Inr [0x49, 0x58]"
proof -
  have run: "saslprep rfc_excerpt nfkc_excerpt (Str [0x49, 0xAD, 0x58]) default_opts
      = Inr [0x49, 0x58]"
    by (simp add: saslprep_eval)
  have "saslprep rfc_excerpt nfkc_excerpt (Str [0x49, 0x58]) default_opts = Inr [0x49, 0x58]"
    by (rule saslprep_idempotent [OF run]) (simp_all add: fixture_defs toCodePoints_eval)
  with run show ?thesis by simp
qed

text \<open>
  C26. A plain string passes through unchanged: when the input is not empty, the
  normaliser leaves it alone, and none of its code points is in the non-ASCII-space,
  mapped-to-nothing, prohibited, unassigned or RandALCat table, \<open>saslprep\<close> returns the
  input. The string \<open>user\<close> is such an input for the tables of RFC 3454.
\<close>

theorem saslprep_plain_passthrough:
  assumes "s \<noteq> []" and "nfkc s = s"
    and "\<forall>c \<in> set (toCodePoints s).
           \<not> non_ASCII_space_characters t c \<and> \<not> commonly_mapped_to_nothing t c \<and>
           \<not> prohibited_characters t c \<and> \<not> unassigned_code_points t c \<and>
           \<not> bidirectional_r_al t c"
  shows "saslprep t nfkc (Str s) opts = Inr s"
proof -
  from assms(2,3) have "normalized_of t nfkc s = s"
    by (simp add: normalized_of_untouched)
  with assms(1,3) show ?thesis
    by (simp add: saslprep_run outcome_defs not_list_ex_iff [symmetric] list_ex_iff)
qed

theorem saslprep_plain_passthrough_witness:
  "saslprep rfc_excerpt nfkc_excerpt (Str [0x75, 0x73, 0x65, 0x72]) default_opts
     = Inr [0x75, 0x73, 0x65, 0x72]"
  by (rule saslprep_plain_passthrough) (simp_all add: fixture_defs toCodePoints_eval)

text \<open>
  The examples of RFC 4013, section 3, and of section 8 of the specification, run
  on the excerpt of the tables: the soft hyphen is dropped, \<open>user\<close> and \<open>USER\<close> are kept
  (case is preserved), U+00AA becomes \<open>a\<close>, U+2168 becomes \<open>IX\<close>, the no-break space
  becomes a space, U+0007 is prohibited, and U+0627 followed by \<open>1\<close> fails the
  bidirectional check.
\<close>

theorem saslprep_examples:
  "saslprep rfc_excerpt nfkc_excerpt (Str [0x49, 0xAD, 0x58]) default_opts = Inr [0x49, 0x58] \<and>
   saslprep rfc_excerpt nfkc_excerpt (Str [0x75, 0x73, 0x65, 0x72]) default_opts
     = Inr [0x75, 0x73, 0x65, 0x72] \<and>
   saslprep rfc_excerpt nfkc_excerpt (Str [0x55, 0x53, 0x45, 0x52]) default_opts
     = Inr [0x55, 0x53, 0x45, 0x52] \<and>
   saslprep rfc_excerpt nfkc_excerpt (Str [0xAA]) default_opts = Inr [0x61] \<and>
   saslprep rfc_excerpt nfkc_excerpt (Str [0x2168]) default_opts = Inr [0x49, 0x58] \<and>
   saslprep rfc_excerpt nfkc_excerpt (Str [0x61, 0xA0, 0x62]) default_opts
     = Inr [0x61, 0x20, 0x62] \<and>
   saslprep rfc_excerpt nfkc_excerpt (Str [0x07]) default_opts = Inl ProhibitedCharacter \<and>
   saslprep rfc_excerpt nfkc_excerpt (Str [0x0627, 0x31]) default_opts = Inl BidiEdgePlacement"
  by (simp add: saslprep_eval)

text \<open>
  C37. Idempotence from the interface of the normaliser. If the normaliser is idempotent
  and keeps fixed code points fixed (it introduces no code point that the mapping would
  drop or replace), and either the input is well formed or the mapping tables hold no
  code point outside the Basic Multilingual Plane (as tables B.1 and C.1.2 of RFC 3454
  do not), then \<open>saslprep\<close> of a result \<open>y\<close> of \<open>saslprep\<close> returns \<open>y\<close>. In the second case
  the input may have unpaired surrogates: those that the mapping brings together are
  joined by the first run into a code point that the second run leaves alone.
\<close>

theorem saslprep_idempotent_unpaired:
  assumes idem: "nfkc_idempotent nfkc" and keeps: "nfkc_keeps_fixed t nfkc"
    and either: "well_formed x \<or> supplementary_fixed t"
    and run: "saslprep t nfkc (Str x) opts = Inr y"
  shows "saslprep t nfkc (Str y) opts = Inr y"
  using idem run
proof (rule saslprep_idempotent_fixed)
  from keeps either run show "list_all (fixed_by_mapping t) (toCodePoints y)"
    by (rule saslprep_Inr_fixed)
qed

theorem saslprep_idempotent_unpaired_witness:
  "\<not> well_formed [0xD83D, 0xAD, 0xDE00, 0x2168] \<and>
   saslprep rfc_excerpt nfkc_excerpt (Str [0xD83D, 0xAD, 0xDE00, 0x2168]) default_opts
     = Inr [0xD83D, 0xDE00, 0x49, 0x58] \<and>
   saslprep rfc_excerpt nfkc_excerpt (Str [0xD83D, 0xDE00, 0x49, 0x58]) default_opts
     = Inr [0xD83D, 0xDE00, 0x49, 0x58]"
proof -
  have ill: "\<not> well_formed [0xD83D, 0xAD, 0xDE00, 0x2168]"
    by (simp add: surrogate_defs)
  have run: "saslprep rfc_excerpt nfkc_excerpt (Str [0xD83D, 0xAD, 0xDE00, 0x2168]) default_opts
      = Inr [0xD83D, 0xDE00, 0x49, 0x58]"
    by (simp add: saslprep_eval)
  from saslprep_idempotent_unpaired
    [OF nfkc_idempotent_excerpt nfkc_keeps_fixed_excerpt
      disjI2 [OF supplementary_fixed_rfc_excerpt] run]
    ill run
  show ?thesis by simp
qed

end
